theory Spec2Isabelle
  imports Main "HOL-Library.Sublist" "HOL-Library.Multiset"
begin

section \<open>Values of the platform\<close>

text \<open>
  The kitchen panel (\<^verbatim>\<open>Entrega Final/admin/cocina.js\<close>) and the shared helpers
  (\<^verbatim>\<open>Entrega Final/scripts.js\<close>) are JavaScript. A JavaScript string is represented by
  the bytes of its UTF-8 encoding, so the capital I with acute accent of the ticket banner
  is the two characters \<open>CHR 0xC3, CHR 0x8D\<close>. Amounts are integers (Chilean pesos have no
  minor unit): the embedding covers the integers a double represents exactly, and leaves
  every other number to the platform.
\<close>

definition nl :: string where
  "nl = [CHR 0x0A]"

text \<open>\<^verbatim>\<open>Array.prototype.join\<close> on an array of strings.\<close>

fun join :: "string \<Rightarrow> string list \<Rightarrow> string" where
  "join sep [] = []"
| "join sep [x] = x"
| "join sep (x # y # ys) = x @ sep @ join sep (y # ys)"

text \<open>The decimal digits of a natural number, most significant first.\<close>

definition cifras :: string where
  "cifras = ''0123456789''"

fun digitos :: "nat \<Rightarrow> string" where
  "digitos n =
     (if n < 10 then [cifras ! n]
      else digitos (n div 10) @ [cifras ! (n mod 10)])"

declare digitos.simps [simp del]

text \<open>
  \<^verbatim>\<open>String(n)\<close> for an integer \<open>n\<close>, as the concatenations \<^verbatim>\<open>'Orden #: ' + orden.id\<close> and
  \<^verbatim>\<open>item.cantidad + 'x '\<close> compute it.
\<close>

definition cadena :: "int \<Rightarrow> string" where
  "cadena n = (if n < 0 then ''-'' else []) @ digitos (nat \<bar>n\<bar>)"

text \<open>
  A property that may be absent reads as \<^verbatim>\<open>undefined\<close>, and a concatenation prints that as
  the text \<^verbatim>\<open>undefined\<close>.
\<close>

definition aCadena :: "string option \<Rightarrow> string" where
  "aCadena v = (case v of None \<Rightarrow> ''undefined'' | Some s \<Rightarrow> s)"

text \<open>Truthiness of an optional string and of an optional boolean.\<close>

definition verdadero :: "string option \<Rightarrow> bool" where
  "verdadero v = (case v of None \<Rightarrow> False | Some s \<Rightarrow> s \<noteq> [])"

definition verdaderoBool :: "bool option \<Rightarrow> bool" where
  "verdaderoBool v = (case v of None \<Rightarrow> False | Some b \<Rightarrow> b)"

text \<open>
  What the code asks of the runtime and the embedding does not compute: the locale
  rendering of a date and of a time of day, the milliseconds of a date (\<open>None\<close> is the
  \<^verbatim>\<open>NaN\<close> of an invalid or absent date), and the locale rendering of a number read from a
  literal with a fraction or an exponent, given that literal.
\<close>

record plataforma =
  fechaLocal :: "string \<Rightarrow> string"
  horaLocal :: "string \<Rightarrow> string"
  milisegundos :: "string option \<Rightarrow> int option"
  localeFuera :: "string \<Rightarrow> string"

text \<open>A price as the API may send it: a number, a string, or nothing.\<close>

datatype valor = Undefined | Null | Num int | Str string

text \<open>
  The result of \<^verbatim>\<open>parseFloat\<close>: \<^verbatim>\<open>NaN\<close>, an integer, or a number outside the integers
  (a fraction, an exponent or \<^verbatim>\<open>Infinity\<close>), kept as the literal that was read.
\<close>

datatype numero = NaN | Entero int | Fuera string

text \<open>
  Leading white space and line terminators, which \<^verbatim>\<open>parseFloat\<close> skips. Every step of
  \<open>quitarBlancos\<close> removes one of them from the head of the string, so as many steps as
  the string has characters remove them all.
\<close>

definition blancos :: "string list" where
  "blancos =
     [[CHR 0x09], [CHR 0x0A], [CHR 0x0B], [CHR 0x0C], [CHR 0x0D], [CHR 0x20],
      [CHR 0xC2, CHR 0xA0], [CHR 0xE1, CHR 0x9A, CHR 0x80],
      [CHR 0xE2, CHR 0x80, CHR 0x80], [CHR 0xE2, CHR 0x80, CHR 0x81],
      [CHR 0xE2, CHR 0x80, CHR 0x82], [CHR 0xE2, CHR 0x80, CHR 0x83],
      [CHR 0xE2, CHR 0x80, CHR 0x84], [CHR 0xE2, CHR 0x80, CHR 0x85],
      [CHR 0xE2, CHR 0x80, CHR 0x86], [CHR 0xE2, CHR 0x80, CHR 0x87],
      [CHR 0xE2, CHR 0x80, CHR 0x88], [CHR 0xE2, CHR 0x80, CHR 0x89],
      [CHR 0xE2, CHR 0x80, CHR 0x8A], [CHR 0xE2, CHR 0x80, CHR 0xA8],
      [CHR 0xE2, CHR 0x80, CHR 0xA9], [CHR 0xE2, CHR 0x80, CHR 0xAF],
      [CHR 0xE2, CHR 0x81, CHR 0x9F], [CHR 0xE3, CHR 0x80, CHR 0x80],
      [CHR 0xEF, CHR 0xBB, CHR 0xBF]]"

definition blancoInicial :: "string \<Rightarrow> nat" where
  "blancoInicial s =
     (case filter (\<lambda>b. take (length b) s = b) blancos of [] \<Rightarrow> 0 | b # _ \<Rightarrow> length b)"

fun quitarBlancos :: "nat \<Rightarrow> string \<Rightarrow> string" where
  "quitarBlancos 0 s = s"
| "quitarBlancos (Suc k) s =
     (if blancoInicial s = 0 then s else quitarBlancos k (drop (blancoInicial s) s))"

definition esDigito :: "char \<Rightarrow> bool" where
  "esDigito c = (c \<in> set cifras)"

definition valorDigitos :: "string \<Rightarrow> nat" where
  "valorDigitos ds = foldl (\<lambda>a c. 10 * a + (of_char c - 48)) 0 ds"

definition signo :: "string \<Rightarrow> string" where
  "signo s = (case s of [] \<Rightarrow> [] | c # _ \<Rightarrow> if c = CHR ''+'' \<or> c = CHR ''-'' then [c] else [])"

text \<open>The exponent part at the head of a string, empty when there is none.\<close>

definition parteExponente :: "string \<Rightarrow> string" where
  "parteExponente r =
     (case r of
        [] \<Rightarrow> []
      | c # r1 \<Rightarrow>
          if c = CHR ''e'' \<or> c = CHR ''E'' then
            (let sg = signo r1; ds = takeWhile esDigito (drop (length sg) r1)
             in if ds = [] then [] else c # sg @ ds)
          else [])"

text \<open>
  \<^verbatim>\<open>parseFloat\<close> of a string: white space is skipped, then the longest prefix that is a
  decimal literal is read. A literal with no fraction digit other than zero and no
  exponent is the integer of its digits.
\<close>

definition parseFloatCadena :: "string \<Rightarrow> numero" where
  "parseFloatCadena s =
     (let t = quitarBlancos (length s) s;
          sg = signo t;
          u = drop (length sg) t
      in if take 8 u = ''Infinity'' then Fuera (sg @ ''Infinity'')
         else
           (let d1 = takeWhile esDigito u;
                r1 = dropWhile esDigito u;
                pt = (if take 1 r1 = ''.'' then ''.'' else []);
                d2 = (if pt = [] then [] else takeWhile esDigito (drop 1 r1));
                r2 = drop (length pt + length d2) r1;
                ex = parteExponente r2
            in if d1 = [] \<and> d2 = [] then NaN
               else if ex \<noteq> [] \<or> filter (\<lambda>c. c \<noteq> CHR ''0'') d2 \<noteq> []
                 then Fuera (sg @ d1 @ pt @ d2 @ ex)
               else Entero ((if sg = ''-'' then - 1 else 1) * int (valorDigitos d1))))"

definition parseFloat :: "valor \<Rightarrow> numero" where
  "parseFloat v =
     (case v of
        Undefined \<Rightarrow> NaN
      | Null \<Rightarrow> NaN
      | Num n \<Rightarrow> Entero n
      | Str s \<Rightarrow> parseFloatCadena s)"

text \<open>The last three decimal digits of a number.\<close>

definition tresDigitos :: "nat \<Rightarrow> string" where
  "tresDigitos n = [cifras ! (n div 100 mod 10), cifras ! (n div 10 mod 10), cifras ! (n mod 10)]"

text \<open>
  Modelled from the spec: \<^verbatim>\<open>Number.prototype.toLocaleString('es-CL')\<close> belongs to the
  runtime, not to the repository. The specification fixes it on integers: the digits
  grouped in threes with a full stop, no decimal places (19600 gives \<^verbatim>\<open>19.600\<close>).
\<close>

fun agrupar :: "nat \<Rightarrow> string" where
  "agrupar n =
     (if n < 1000 then digitos n
      else agrupar (n div 1000) @ ''.'' @ tresDigitos n)"

declare agrupar.simps [simp del]

definition toLocaleString :: "plataforma \<Rightarrow> numero \<Rightarrow> string" where
  "toLocaleString p x =
     (case x of
        NaN \<Rightarrow> ''NaN''
      | Entero n \<Rightarrow> (if n < 0 then ''-'' else []) @ agrupar (nat \<bar>n\<bar>)
      | Fuera l \<Rightarrow> localeFuera p l)"

section \<open>Shared helpers (scripts.js)\<close>

text \<open>
  \<^verbatim>\<open>formatearPrecio\<close>: \<^verbatim>\<open>parseFloat(precio) || 0\<close> replaces \<^verbatim>\<open>NaN\<close> and zero by zero, and the
  result is rendered for the locale after a dollar sign.
\<close>

definition formatearPrecio :: "plataforma \<Rightarrow> valor \<Rightarrow> string" where
  "formatearPrecio p precio =
     (let precioNumerico =
            (case parseFloat precio of NaN \<Rightarrow> Entero 0 | Entero n \<Rightarrow> Entero n | Fuera l \<Rightarrow> Fuera l)
      in ''$'' @ toLocaleString p precioNumerico)"

text \<open>
  \<^verbatim>\<open>mostrarExito\<close> and \<^verbatim>\<open>mostrarError\<close> write an alert into the message container; the
  argument is the container's content, \<open>None\<close> when the page has no such element, and
  then nothing is written. The timer that hides a success alert after five seconds is
  not part of the embedding.
\<close>

definition alerta :: "string \<Rightarrow> string \<Rightarrow> string" where
  "alerta tipo mensaje =
     nl @ ''      <div class=\"alert alert-'' @ tipo @
       '' alert-dismissible fade show\" role=\"alert\">'' @
     nl @ ''        '' @ mensaje @
     nl @ ''        <button type=\"button\" class=\"btn-close\" data-bs-dismiss=\"alert\" aria-label=\"Close\"></button>'' @
     nl @ ''      </div>'' @
     nl @ ''    ''"

definition mostrarExito :: "string \<Rightarrow> string option \<Rightarrow> string option" where
  "mostrarExito mensaje contenedor =
     (case contenedor of None \<Rightarrow> None | Some _ \<Rightarrow> Some (alerta ''success'' mensaje))"

definition mostrarError :: "string \<Rightarrow> string option \<Rightarrow> string option" where
  "mostrarError mensaje contenedor =
     (case contenedor of None \<Rightarrow> None | Some _ \<Rightarrow> Some (alerta ''danger'' mensaje))"

section \<open>The kitchen panel (admin/cocina.js)\<close>

subsection \<open>Orders\<close>

record tamanio =
  nombre_tamanio :: "string option"

record extra =
  nombre_extra :: string
  precio :: int

record item =
  cantidad :: int
  nombre :: string
  tamanio :: "tamanio option"
  extras :: "extra list option"
  notas :: "string option"
  precio_unitario :: int

record items_json =
  items :: "item list option"

record orden =
  id_orden :: int
  estado :: string
  fecha :: "string option"
  items_json :: "items_json option"
  eta_minutos :: "int option"
  direccion :: string
  telefono :: string
  instrucciones_especiales :: "string option"
  subtotal :: int
  costo_envio :: int
  impuestos :: int
  descuento :: "int option"
  total_orden :: int
  metodo_pago :: "string option"

subsection \<open>Status descriptors\<close>

text \<open>
  A descriptor is an object with up to seven properties; a property the object does not
  have reads as \<^verbatim>\<open>undefined\<close>, here \<open>None\<close>.
\<close>

record info_estado =
  texto :: "string option"
  clase :: "string option"
  colorBorder :: "string option"
  mostrarBotonEstado :: "bool option"
  botonTexto :: "string option"
  botonClase :: "string option"
  siguienteEstado :: "string option"

definition estados :: "(string \<times> info_estado) list" where
  "estados =
     [(''pendiente'',
       \<lparr>texto = Some ''Pendiente'', clase = Some ''bg-secondary'',
        colorBorder = Some ''secondary'', mostrarBotonEstado = Some True,
        botonTexto = Some ''Confirmar Pedido'', botonClase = Some ''primary'',
        siguienteEstado = Some ''confirmado''\<rparr>),
      (''confirmado'',
       \<lparr>texto = Some ''Confirmado'', clase = Some ''bg-primary'',
        colorBorder = Some ''primary'', mostrarBotonEstado = Some True,
        botonTexto = Some (''Iniciar Preparaci'' @ [CHR 0xC3, CHR 0xB3] @ ''n''),
        botonClase = Some ''warning'', siguienteEstado = Some ''en_preparacion''\<rparr>),
      (''en_preparacion'',
       \<lparr>texto = Some (''En Preparaci'' @ [CHR 0xC3, CHR 0xB3] @ ''n''),
        clase = Some ''bg-warning text-dark'', colorBorder = Some ''warning'',
        mostrarBotonEstado = Some True,
        botonTexto = Some (''Listo para Env'' @ [CHR 0xC3, CHR 0xAD] @ ''o''),
        botonClase = Some ''info'', siguienteEstado = Some ''en_camino''\<rparr>),
      (''en_camino'',
       \<lparr>texto = Some ''En Camino'', clase = Some ''bg-info'', colorBorder = Some ''info'',
        mostrarBotonEstado = Some False, botonTexto = None, botonClase = None,
        siguienteEstado = None\<rparr>),
      (''entregado'',
       \<lparr>texto = Some ''Entregado'', clase = Some ''bg-success'',
        colorBorder = Some ''success'', mostrarBotonEstado = Some False,
        botonTexto = None, botonClase = None, siguienteEstado = None\<rparr>),
      (''anulado'',
       \<lparr>texto = Some ''Anulado'', clase = Some ''bg-danger'', colorBorder = Some ''danger'',
        mostrarBotonEstado = Some False, botonTexto = None, botonClase = None,
        siguienteEstado = None\<rparr>),
      (''cancelado'',
       \<lparr>texto = Some ''Cancelado'', clase = Some ''bg-danger'',
        colorBorder = Some ''danger'', mostrarBotonEstado = Some False,
        botonTexto = None, botonClase = None, siguienteEstado = None\<rparr>)]"

text \<open>
  \<^verbatim>\<open>estados[estado]\<close> is a property read on an object literal, so a key the literal does not
  define is looked up in \<^verbatim>\<open>Object.prototype\<close>. These are the names found there; each
  holds a function or an object, which is truthy and has none of the seven properties.
\<close>

definition heredadas :: "string list" where
  "heredadas =
     [''constructor'', ''__defineGetter__'', ''__defineSetter__'', ''hasOwnProperty'',
      ''__lookupGetter__'', ''__lookupSetter__'', ''isPrototypeOf'',
      ''propertyIsEnumerable'', ''toString'', ''valueOf'', ''__proto__'',
      ''toLocaleString'']"

definition sinPropiedades :: info_estado where
  "sinPropiedades =
     \<lparr>texto = None, clase = None, colorBorder = None, mostrarBotonEstado = None,
      botonTexto = None, botonClase = None, siguienteEstado = None\<rparr>"

definition obtenerInfoEstadoCocina :: "string \<Rightarrow> info_estado" where
  "obtenerInfoEstadoCocina e =
     (case map_of estados e of
        Some d \<Rightarrow> d
      | None \<Rightarrow>
          if e \<in> set heredadas then sinPropiedades
          else \<lparr>texto = Some e, clase = Some ''bg-secondary'',
                colorBorder = Some ''secondary'', mostrarBotonEstado = Some False,
                botonTexto = None, botonClase = None, siguienteEstado = None\<rparr>)"

subsection \<open>Dates\<close>

record fecha_hora =
  fecha_fh :: string
  hora_fh :: string

definition formatearFechaHora :: "plataforma \<Rightarrow> string option \<Rightarrow> fecha_hora" where
  "formatearFechaHora p fechaISO =
     (case fechaISO of
        None \<Rightarrow> \<lparr>fecha_fh = ''Sin fecha'', hora_fh = []\<rparr>
      | Some f \<Rightarrow>
          if f = [] then \<lparr>fecha_fh = ''Sin fecha'', hora_fh = []\<rparr>
          else \<lparr>fecha_fh = fechaLocal p f, hora_fh = horaLocal p f\<rparr>)"

subsection \<open>The kitchen ticket\<close>

text \<open>\<^verbatim>\<open>(orden.items_json && orden.items_json.items) ? orden.items_json.items : []\<close>\<close>

definition itemsDe :: "orden \<Rightarrow> item list" where
  "itemsDe orden =
     (case items_json orden of
        None \<Rightarrow> []
      | Some j \<Rightarrow> (case items j of None \<Rightarrow> [] | Some xs \<Rightarrow> xs))"

text \<open>\<^verbatim>\<open>item.tamanio && item.tamanio.nombre\<close>\<close>

definition nombreTamanio :: "item \<Rightarrow> string option" where
  "nombreTamanio it = (case tamanio it of None \<Rightarrow> None | Some t \<Rightarrow> nombre_tamanio t)"

definition separador :: string where
  "separador = ''----------------------------------------''"

definition separadorDoble :: string where
  "separadorDoble = ''========================================''"

text \<open>The lines one item of the order pushes: the body of the \<^verbatim>\<open>forEach\<close>.\<close>

definition lineasItem :: "plataforma \<Rightarrow> item \<Rightarrow> string list" where
  "lineasItem p it =
     (let itemLine = cadena (cantidad it) @ ''x '' @ nombre it;
          itemLine =
            (if verdadero (nombreTamanio it)
             then itemLine @ '' ('' @ aCadena (nombreTamanio it) @ '')'' else itemLine)
      in [itemLine] @
         (case extras it of
            None \<Rightarrow> []
          | Some es \<Rightarrow>
              if length es > 0
              then map (\<lambda>e. ''    + '' @ nombre_extra e @ '' ('' @
                        formatearPrecio p (Num (precio e)) @ '')'') es
              else []) @
         (if verdadero (notas it) then [''    Notas: '' @ aCadena (notas it)] else []) @
         [''    Precio: '' @ formatearPrecio p (Num (precio_unitario it * cantidad it)),
          []])"

text \<open>The array \<^verbatim>\<open>lineas\<close> of \<^verbatim>\<open>generarTicket\<close> when it is joined.\<close>

definition lineasTicket :: "plataforma \<Rightarrow> orden \<Rightarrow> string list" where
  "lineasTicket p orden =
     (let fechaHora = formatearFechaHora p (fecha orden)
      in [separadorDoble,
          ''        PIZZER'' @ [CHR 0xC3, CHR 0x8D] @ ''A LA FORNACE'',
          ''        TICKET DE COCINA'',
          separadorDoble,
          [],
          ''Orden #: '' @ cadena (id_orden orden),
          ''Fecha: '' @ fecha_fh fechaHora,
          ''Hora: '' @ hora_fh fechaHora,
          [],
          separador,
          ''ITEMS DEL PEDIDO:'',
          separador,
          []] @
         concat (map (lineasItem p) (itemsDe orden)) @
         [separador,
          ''DIRECCI'' @ [CHR 0xC3, CHR 0x93] @ ''N DE ENTREGA:'',
          separador,
          direccion orden,
          ''Tel: '' @ telefono orden,
          []] @
         (if verdadero (instrucciones_especiales orden)
          then [''INSTRUCCIONES ESPECIALES:'', aCadena (instrucciones_especiales orden), []]
          else []) @
         (case eta_minutos orden of
            None \<Rightarrow> []
          | Some eta \<Rightarrow>
              if eta \<noteq> 0 then [''ETA: '' @ cadena eta @ '' minutos'', []] else []) @
         [separador,
          ''SUBTOTAL: '' @ formatearPrecio p (Num (subtotal orden)),
          ''ENV'' @ [CHR 0xC3, CHR 0x8D] @ ''O: '' @ formatearPrecio p (Num (costo_envio orden)),
          ''IVA: '' @ formatearPrecio p (Num (impuestos orden))] @
         (case descuento orden of
            None \<Rightarrow> []
          | Some d \<Rightarrow>
              if d > 0 then [''DESCUENTO: -'' @ formatearPrecio p (Num d)] else []) @
         [separador,
          ''TOTAL: '' @ formatearPrecio p (Num (total_orden orden)),
          separador,
          [],
          ''Estado: '' @ aCadena (texto (obtenerInfoEstadoCocina (estado orden))),
          ''M'' @ [CHR 0xC3, CHR 0xA9] @ ''todo de pago: '' @
            (if verdadero (metodo_pago orden) then aCadena (metodo_pago orden)
             else ''No especificado''),
          [],
          separadorDoble])"

definition generarTicket :: "plataforma \<Rightarrow> orden \<Rightarrow> string" where
  "generarTicket p orden = join nl (lineasTicket p orden)"

subsection \<open>The order list\<close>

definition comilla :: string where
  "comilla = [CHR 0x27]"

text \<open>The summary of one item in a card: the callback of \<^verbatim>\<open>items.map\<close>.\<close>

definition resumenItem :: "item \<Rightarrow> string" where
  "resumenItem it =
     (let itemText = cadena (cantidad it) @ ''x '' @ nombre it;
          itemText =
            (if verdadero (nombreTamanio it)
             then itemText @ '' ('' @ aCadena (nombreTamanio it) @ '')'' else itemText);
          itemText =
            (case extras it of
               None \<Rightarrow> itemText
             | Some es \<Rightarrow>
                 if length es > 0
                 then itemText @ ''<br><small class=\"text-success\">+ '' @
                        join '', '' (map nombre_extra es) @ ''</small>''
                 else itemText)
      in if verdadero (notas it)
         then itemText @ ''<br><small class=\"text-muted\">Notas: '' @ aCadena (notas it) @
                ''</small>''
         else itemText)"

definition iconoTicket :: string where
  "iconoTicket =
     ''<svg xmlns=\"http://www.w3.org/2000/svg\" width=\"16\" height=\"16\" fill=\"currentColor\" class=\"bi bi-receipt me-1\" viewBox=\"0 0 16 16\">'' @
     ''<path d=\"M1.92.506a.5.5 0 0 1 .434.14L3 1.293l.646-.647a.5.5 0 0 1 .708 0L5 1.29'' @
     ''3l.646-.647a.5.5 0 0 1 .708 0L7 1.293l.646-.647a.5.5 0 0 1 .708 0L9 1.293l.646-.'' @
     ''647a.5.5 0 0 1 .708 0l.646.647.646-.647a.5.5 0 0 1 .708 0l.646.647.646-.647a.5.5'' @
     '' 0 0 1 .801.13l.5 1A.5.5 0 0 1 15 2v12a.5.5 0 0 1-.053.224l-.5 1a.5.5 0 0 1-.8.1'' @
     ''3L13 14.707l-.646.647a.5.5 0 0 1-.708 0L11 14.707l-.646.647a.5.5 0 0 1-.708 0L9 '' @
     ''14.707l-.646.647a.5.5 0 0 1-.708 0L7 14.707l-.646.647a.5.5 0 0 1-.708 0L5 14.707'' @
     ''l-.646.647a.5.5 0 0 1-.708 0L3 14.707l-.646.647a.5.5 0 0 1-.801-.13l-.5-1A.5.5 0'' @
     '' 0 1 1 14V2a.5.5 0 0 1 .053-.224l.5-1a.5.5 0 0 1 .367-.27z\"/>'' @
     ''</svg>''"

text \<open>
  The buttons that change the status of an order: the one the descriptor asks for, and
  the one written out for an order on its way.
\<close>

definition botonesEstado :: "orden \<Rightarrow> string" where
  "botonesEstado orden =
     (let estadoInfo = obtenerInfoEstadoCocina (estado orden)
      in (if verdaderoBool (mostrarBotonEstado estadoInfo)
          then ''<button class=\"btn btn-'' @ aCadena (botonClase estadoInfo) @
                 '' btn-sm w-100\" onclick=\"cambiarEstadoOrden('' @ cadena (id_orden orden) @
                 '', '' @ comilla @ aCadena (siguienteEstado estadoInfo) @ comilla @ '')\">'' @
                 aCadena (botonTexto estadoInfo) @ ''</button>''
          else []) @
         (if estado orden = ''en_camino''
          then ''<button class=\"btn btn-success btn-sm w-100 mt-2\" onclick=\"cambiarEstadoOrden('' @
                 cadena (id_orden orden) @ '', '' @ comilla @ ''entregado'' @ comilla @ '')\">'' @
                 ''Marcar Entregado'' @ ''</button>''
          else []))"

text \<open>The card of one order: the body of the \<^verbatim>\<open>forEach\<close> of \<^verbatim>\<open>renderizarOrdenes\<close>.\<close>

definition tarjetaOrden :: "plataforma \<Rightarrow> orden \<Rightarrow> string" where
  "tarjetaOrden p orden =
     (let estadoInfo = obtenerInfoEstadoCocina (estado orden);
          fechaHora = formatearFechaHora p (fecha orden);
          resumenItems = join ''<br>'' (map resumenItem (itemsDe orden))
      in ''<div class=\"card mb-3 shadow-sm border-0 border-start border-'' @
           aCadena (colorBorder estadoInfo) @ '' border-4\">'' @
         ''<div class=\"card-body\">'' @
         ''<div class=\"row\">'' @
         ''<div class=\"col-md-8\">'' @
         ''<div class=\"d-flex justify-content-between align-items-start mb-2\">'' @
         ''<h5 class=\"mb-0\">Orden #'' @ cadena (id_orden orden) @ ''</h5>'' @
         ''<span class=\"badge '' @ aCadena (clase estadoInfo) @ '' fs-6\">'' @
           aCadena (texto estadoInfo) @ ''</span>'' @
         ''</div>'' @
         ''<p class=\"text-muted mb-2\">'' @
         ''<small>'' @
         ''<strong>Fecha:</strong> '' @ fecha_fh fechaHora @ '' '' @ hora_fh fechaHora @
         (case eta_minutos orden of
            None \<Rightarrow> []
          | Some eta \<Rightarrow>
              if eta \<noteq> 0 then ''<br><strong>ETA:</strong> '' @ cadena eta @ '' minutos''
              else []) @
         ''</small>'' @
         ''</p>'' @
         ''<p class=\"mb-2\"><strong>Items:</strong><br>'' @
           (if resumenItems \<noteq> [] then resumenItems else ''Sin items'') @ ''</p>'' @
         ''<p class=\"mb-1\"><small class=\"text-muted\"><strong>Direcci'' @
           [CHR 0xC3, CHR 0xB3] @ ''n:</strong> '' @ direccion orden @ ''</small></p>'' @
         ''<p class=\"mb-0\"><small class=\"text-muted\"><strong>Tel'' @
           [CHR 0xC3, CHR 0xA9] @ ''fono:</strong> '' @ telefono orden @ ''</small></p>'' @
         (if verdadero (instrucciones_especiales orden)
          then ''<p class=\"mb-0 mt-2\"><small class=\"text-warning\"><strong>Instrucciones:</strong> '' @
                 aCadena (instrucciones_especiales orden) @ ''</small></p>''
          else []) @
         ''</div>'' @
         ''<div class=\"col-md-4 text-md-end mt-3 mt-md-0\">'' @
         ''<p class=\"fs-5 fw-bold text-primary mb-3\">'' @
           formatearPrecio p (Num (total_orden orden)) @ ''</p>'' @
         ''<button class=\"btn btn-outline-primary btn-sm mb-2 w-100\" onclick=\"verTicket('' @
           cadena (id_orden orden) @ '')\">'' @
         iconoTicket @
         ''Ver Ticket'' @
         ''</button>'' @
         botonesEstado orden @
         ''</div></div></div></div>'')"

text \<open>
  The comparator of the sort, \<^verbatim>\<open>new Date(b.fecha) - new Date(a.fecha)\<close>; \<open>None\<close> is \<^verbatim>\<open>NaN\<close>,
  the difference when one of the dates is invalid.
\<close>

definition restaFechas :: "plataforma \<Rightarrow> orden \<Rightarrow> orden \<Rightarrow> int option" where
  "restaFechas p a b =
     (case milisegundos p (fecha b) of
        None \<Rightarrow> None
      | Some tb \<Rightarrow>
          (case milisegundos p (fecha a) of None \<Rightarrow> None | Some ta \<Rightarrow> Some (tb - ta)))"

text \<open>
  Modelled from the spec: \<^verbatim>\<open>Array.prototype.sort\<close> belongs to the runtime, not to the
  repository. The specification requires a stable sort: an element goes after another
  only when the comparator says so with a positive number (\<^verbatim>\<open>NaN\<close> counts as zero), and
  elements the comparator does not separate keep the order they came in.
\<close>

definition vaDespues :: "int option \<Rightarrow> bool" where
  "vaDespues v = (case v of None \<Rightarrow> False | Some d \<Rightarrow> d > 0)"

fun insertar :: "('a \<Rightarrow> 'a \<Rightarrow> int option) \<Rightarrow> 'a \<Rightarrow> 'a list \<Rightarrow> 'a list" where
  "insertar cmp x [] = [x]"
| "insertar cmp x (y # ys) =
     (if vaDespues (cmp x y) then y # insertar cmp x ys else x # y # ys)"

definition ordenar :: "('a \<Rightarrow> 'a \<Rightarrow> int option) \<Rightarrow> 'a list \<Rightarrow> 'a list" where
  "ordenar cmp xs = foldr (insertar cmp) xs []"

text \<open>The state of the page: the three globals of the script and the elements it writes.\<close>

datatype peticion = Get string | Patch string string

record panel =
  ordenesActuales :: "orden list"
  filtroActual :: string
  ordenSeleccionada :: "orden option"
  contenedor_html :: string
  contenedor_display :: string
  vacias_display :: string
  mensajes :: "string option"
  ticket_contenido :: string
  modal_abierto :: bool
  impresiones :: "string list"
  peticiones :: "peticion list"

text \<open>The orders \<^verbatim>\<open>renderizarOrdenes\<close> shows: filtered by status, then sorted by date.\<close>

definition filtrarPorEstado :: "string \<Rightarrow> orden list \<Rightarrow> orden list" where
  "filtrarPorEstado filtro ordenes =
     (if filtro = ''todos''
      then filter (\<lambda>x. estado x \<in>
             set [''pendiente'', ''confirmado'', ''en_preparacion'', ''en_camino'']) ordenes
      else filter (\<lambda>x. estado x = filtro) ordenes)"

definition ordenesFiltradas :: "plataforma \<Rightarrow> panel \<Rightarrow> orden list" where
  "ordenesFiltradas p st =
     ordenar (restaFechas p) (filtrarPorEstado (filtroActual st) (ordenesActuales st))"

definition renderizarOrdenes :: "plataforma \<Rightarrow> panel \<Rightarrow> panel" where
  "renderizarOrdenes p st =
     (let filtradas = ordenesFiltradas p st
      in if length filtradas = 0
         then st\<lparr>contenedor_display := ''none'', vacias_display := ''block''\<rparr>
         else st\<lparr>contenedor_display := ''block'', vacias_display := ''none'',
                 contenedor_html := concat (map (tarjetaOrden p) filtradas)\<rparr>)"

text \<open>
  A request to the API either throws an error with a message (\<open>Inl\<close>) or resolves
  (\<open>Inr\<close>). The answer to \<^verbatim>\<open>GET /pedidos\<close> is \<open>None\<close> when it is not an array; so it is
  after a 401 answer, on which the client logs out and resolves with \<^verbatim>\<open>null\<close>.
\<close>

type_synonym 'a respuesta = "string + 'a"

definition cargarOrdenes :: "plataforma \<Rightarrow> orden list option respuesta \<Rightarrow> panel \<Rightarrow> panel" where
  "cargarOrdenes p respuesta st =
     (let st1 = st\<lparr>contenedor_html :=
                 ''<div class=\"text-center py-5\"><div class=\"spinner-border text-primary\" role=\"status\"></div><p class=\"mt-2\">Cargando '' @
                 [CHR 0xC3, CHR 0xB3] @ ''rdenes...</p></div>'',
               peticiones := peticiones st @ [Get ''/pedidos'']\<rparr>
      in case respuesta of
           Inl mensaje \<Rightarrow>
             st1\<lparr>contenedor_html :=
               ''<div class=\"alert alert-danger\">'' @
               ''<strong>Error al cargar '' @ [CHR 0xC3, CHR 0xB3] @ ''rdenes:</strong> '' @ mensaje @
               ''<br><small>Verifica que la API est'' @ [CHR 0xC3, CHR 0xA9] @
               '' funcionando y tengas permisos de administrador/cocinero.</small>'' @
               ''</div>''\<rparr>
         | Inr datos \<Rightarrow>
             renderizarOrdenes p
               (st1\<lparr>ordenesActuales := (case datos of None \<Rightarrow> [] | Some xs \<Rightarrow> xs)\<rparr>))"

definition verTicket :: "plataforma \<Rightarrow> int \<Rightarrow> panel \<Rightarrow> panel" where
  "verTicket p ordenId st =
     (let seleccionada = find (\<lambda>x. id_orden x = ordenId) (ordenesActuales st);
          st1 = st\<lparr>ordenSeleccionada := seleccionada\<rparr>
      in case seleccionada of
           None \<Rightarrow> st1
         | Some orden \<Rightarrow> st1\<lparr>ticket_contenido := generarTicket p orden, modal_abierto := True\<rparr>)"

text \<open>The document \<^verbatim>\<open>imprimirTicket\<close> writes into the print window.\<close>

definition documentoImpresion :: "int \<Rightarrow> string \<Rightarrow> string" where
  "documentoImpresion ordenId ticketContent =
     ''<!DOCTYPE html>'' @
     ''<html>'' @
     ''<head>'' @
     ''<title>Ticket Orden #'' @ cadena ordenId @ ''</title>'' @
     ''<style>'' @
     ''body { font-family: \"Courier New\", monospace; font-size: 12px; padding: 10px; max-width: 300px; margin: 0 auto; }'' @
     ''pre { white-space: pre-wrap; word-wrap: break-word; }'' @
     ''@media print { body { margin: 0; padding: 5px; } }'' @
     ''</style>'' @
     ''</head>'' @
     ''<body>'' @
     ''<pre>'' @ ticketContent @ ''</pre>'' @
     ''<script>window.onload = function() { window.print(); window.onafterprint = function() { window.close(); }; };</script>'' @
     ''</body>'' @
     ''</html>''"

definition imprimirTicket :: "plataforma \<Rightarrow> panel \<Rightarrow> panel" where
  "imprimirTicket p st =
     (case ordenSeleccionada st of
        None \<Rightarrow> st
      | Some orden \<Rightarrow>
          (let ticketContent = generarTicket p orden
           in st\<lparr>impresiones :=
                    impresiones st @ [documentoImpresion (id_orden orden) ticketContent],
                  mensajes := mostrarExito ''Ticket enviado a impresora'' (mensajes st),
                  modal_abierto := False\<rparr>))"

text \<open>
  \<^verbatim>\<open>cambiarEstadoOrden\<close>: the \<^verbatim>\<open>PATCH\<close> request, then on success the notice and the reload,
  and in the \<^verbatim>\<open>catch\<close> branch the error notice alone. The answer to the reload is read
  only when the reload is made.
\<close>

definition cambiarEstadoOrden ::
  "plataforma \<Rightarrow> unit respuesta \<Rightarrow> orden list option respuesta \<Rightarrow> int \<Rightarrow> string \<Rightarrow> panel \<Rightarrow> panel"
where
  "cambiarEstadoOrden p resPatch resGet ordenId nuevoEstado st =
     (let st1 = st\<lparr>peticiones :=
                 peticiones st @ [Patch (''/pedidos/'' @ cadena ordenId @ ''/estado'') nuevoEstado]\<rparr>
      in case resPatch of
           Inl mensaje \<Rightarrow>
             st1\<lparr>mensajes := mostrarError (''Error al actualizar orden: '' @ mensaje) (mensajes st1)\<rparr>
         | Inr _ \<Rightarrow>
             (let nombreEstado = aCadena (texto (obtenerInfoEstadoCocina nuevoEstado))
              in cargarOrdenes p resGet
                   (st1\<lparr>mensajes :=
                      mostrarExito (''Orden #'' @ cadena ordenId @ '' actualizada a: '' @ nombreEstado)
                        (mensajes st1)\<rparr>)))"

section \<open>Sample inputs\<close>

text \<open>
  A platform to run the functions on concrete inputs. Its renderings of dates are
  stand-ins: the date is the first ten characters of the ISO text and the time of day the
  five after the separator; the milliseconds of the dates used below are tabulated.
\<close>

definition fechasMuestra :: "(string \<times> int) list" where
  "fechasMuestra =
     [(''2024-05-01T12:00:00Z'', 1714564800000),
      (''2024-05-01T13:30:00Z'', 1714570200000),
      (''2024-05-02T09:15:00Z'', 1714641300000)]"

definition plataformaMuestra :: plataforma where
  "plataformaMuestra =
     \<lparr>fechaLocal = (\<lambda>f. take 10 f),
      horaLocal = (\<lambda>f. take 5 (drop 11 f)),
      milisegundos = (\<lambda>f. case f of None \<Rightarrow> None | Some s \<Rightarrow> map_of fechasMuestra s),
      localeFuera = (\<lambda>l. l)\<rparr>"

text \<open>The order of the scenario of the specification, and one order per status.\<close>

definition orden77 :: orden where
  "orden77 =
     \<lparr>id_orden = 77, estado = ''pendiente'', fecha = None,
      items_json =
        Some \<lparr>items =
          Some [\<lparr>cantidad = 2, nombre = ''Hawaiana'',
                 tamanio = Some \<lparr>nombre_tamanio = Some ''grande''\<rparr>,
                 extras = None, notas = None, precio_unitario = 19600\<rparr>]\<rparr>,
      eta_minutos = None, direccion = ''Calle 1'', telefono = ''+56912345678'',
      instrucciones_especiales = None, subtotal = 39200, costo_envio = 2000,
      impuestos = 3000, descuento = Some 0, total_orden = 44200, metodo_pago = None\<rparr>"

text \<open>An order with every optional field: an extra, a note, instructions and a discount.\<close>

definition ordenCompleta :: orden where
  "ordenCompleta =
     \<lparr>id_orden = 78, estado = ''confirmado'', fecha = None,
      items_json =
        Some \<lparr>items =
          Some [\<lparr>cantidad = 1, nombre = ''Pepperoni'', tamanio = None,
                 extras = Some [\<lparr>nombre_extra = ''Queso'', precio = 1500\<rparr>],
                 notas = Some ''Sin cebolla'', precio_unitario = 19600\<rparr>]\<rparr>,
      eta_minutos = Some 30, direccion = ''Calle 2'', telefono = ''+56987654321'',
      instrucciones_especiales = Some ''Tocar timbre'', subtotal = 21100, costo_envio = 2000,
      impuestos = 3000, descuento = Some 500, total_orden = 25600,
      metodo_pago = Some ''efectivo''\<rparr>"

definition ordenMuestra :: "int \<Rightarrow> string \<Rightarrow> string \<Rightarrow> orden" where
  "ordenMuestra n e f = orden77\<lparr>id_orden := n, estado := e, fecha := Some f\<rparr>"

text \<open>
  A page with five orders, two of them of the same date, under the filter that shows all.
\<close>

definition panelMuestra :: panel where
  "panelMuestra =
     \<lparr>ordenesActuales =
        [ordenMuestra 1 ''pendiente'' ''2024-05-01T12:00:00Z'',
         ordenMuestra 2 ''entregado'' ''2024-05-01T13:30:00Z'',
         ordenMuestra 3 ''en_camino'' ''2024-05-02T09:15:00Z'',
         ordenMuestra 4 ''pendiente'' ''2024-05-01T12:00:00Z'',
         ordenMuestra 5 ''anulado'' ''2024-05-01T13:30:00Z'',
         ordenMuestra 6 ''confirmado'' ''2024-05-01T13:30:00Z''],
      filtroActual = ''todos'', ordenSeleccionada = None, contenedor_html = [],
      contenedor_display = ''block'', vacias_display = ''none'', mensajes = Some [],
      ticket_contenido = [], modal_abierto = False, impresiones = [], peticiones = []\<rparr>"

section \<open>Lists, digits and sorting\<close>

lemma join_append:
  "xs \<noteq> [] \<Longrightarrow> ys \<noteq> [] \<Longrightarrow> join sep (xs @ ys) = join sep xs @ sep @ join sep ys"
proof (induction sep xs rule: join.induct)
  case (1 sep)
  then show ?case by simp
next
  case (2 sep x)
  then show ?case by (cases ys) simp_all
next
  case (3 sep x y ys')
  then show ?case by simp
qed

lemma join_Cons: "ys \<noteq> [] \<Longrightarrow> join sep (x # ys) = x @ sep @ join sep ys"
  by (cases ys) simp_all

lemma join_concat:
  "ys \<noteq> [] \<Longrightarrow> join sep (xs @ ys) = concat (map (\<lambda>x. x @ sep) xs) @ join sep ys"
  by (induction xs) (simp_all add: join_Cons)

text \<open>A line that is neither the first nor the last stands in the text between two separators.\<close>

lemma linea_en_texto:
  assumes "l \<in> set mid"
  shows "sublist (sep @ l @ sep) (join sep (h # mid @ [f]))"
proof -
  obtain a b where m: "mid = a @ l # b"
    using assms by (meson split_list)
  have "join sep (h # mid @ [f]) = join sep ((h # a) @ (l # b @ [f]))"
    by (simp add: m)
  also have "\<dots> = join sep (h # a) @ sep @ join sep (l # b @ [f])"
    by (intro join_append) simp_all
  also have "join sep (l # b @ [f]) = l @ sep @ join sep (b @ [f])"
    by (intro join_Cons) simp
  finally have "join sep (h # mid @ [f]) =
      join sep (h # a) @ (sep @ l @ sep) @ join sep (b @ [f])"
    by simp
  then show ?thesis unfolding sublist_def by blast
qed


lemma length_cifras: "length cifras = 10"
  by (simp add: cifras_def)

lemma punto_cifras: "CHR ''.'' \<notin> set cifras"
  by (simp add: cifras_def)

lemma coma_cifras: "CHR '','' \<notin> set cifras"
  by (simp add: cifras_def)

lemma cifra_en: "k < 10 \<Longrightarrow> cifras ! k \<in> set cifras"
  by (simp add: length_cifras)

lemma set_digitos: "set (digitos n) \<subseteq> set cifras"
proof (induction n rule: digitos.induct)
  case (1 n)
  show ?case
  proof (cases "n < 10")
    case True
    then show ?thesis by (subst digitos.simps) (simp add: cifra_en)
  next
    case False
    with 1 show ?thesis by (subst digitos.simps) (simp add: cifra_en)
  qed
qed

lemma set_tresDigitos: "set (tresDigitos n) \<subseteq> set cifras"
  by (simp add: tresDigitos_def cifra_en)

text \<open>From one thousand on, the digits of a number end in its last three digits.\<close>

lemma digitos_mil:
  assumes "1000 \<le> n"
  shows "digitos n = digitos (n div 1000) @ tresDigitos n"
proof -
  have a: "digitos n = digitos (n div 10) @ [cifras ! (n mod 10)]"
    using assms by (subst digitos.simps) simp
  have b: "digitos (n div 10) = digitos (n div 10 div 10) @ [cifras ! (n div 10 mod 10)]"
    using assms by (subst digitos.simps) simp
  have c: "digitos (n div 10 div 10) =
           digitos (n div 10 div 10 div 10) @ [cifras ! (n div 10 div 10 mod 10)]"
    using assms by (subst digitos.simps) simp
  have d: "n div 10 div 10 div 10 = n div 1000"
    by (simp add: div_mult2_eq [symmetric])
  have e: "n div 10 div 10 = n div 100"
    by (simp add: div_mult2_eq [symmetric])
  show ?thesis
    unfolding a b c d unfolding e tresDigitos_def by simp
qed

lemma sin_puntos: "CHR ''.'' \<notin> set xs \<Longrightarrow> filter (\<lambda>c. c \<noteq> CHR ''.'') xs = xs"
  by (induction xs) auto

lemma punto_digitos: "CHR ''.'' \<notin> set (digitos n)"
  using set_digitos [of n] punto_cifras by blast

lemma punto_tresDigitos: "CHR ''.'' \<notin> set (tresDigitos n)"
  using set_tresDigitos [of n] punto_cifras by blast

text \<open>Grouping only inserts full stops: without them the digits are left.\<close>

lemma agrupar_digitos: "filter (\<lambda>c. c \<noteq> CHR ''.'') (agrupar n) = digitos n"
proof (induction n rule: agrupar.induct)
  case (1 n)
  show ?case
  proof (cases "n < 1000")
    case True
    then show ?thesis by (subst agrupar.simps) (simp add: sin_puntos punto_digitos)
  next
    case False
    then have "filter (\<lambda>c. c \<noteq> CHR ''.'') (agrupar n) =
          digitos (n div 1000) @ tresDigitos n"
      using 1 by (subst agrupar.simps) (simp add: sin_puntos punto_tresDigitos)
    with False show ?thesis by (simp add: digitos_mil)
  qed
qed

lemma set_agrupar: "set (agrupar n) \<subseteq> insert (CHR ''.'') (set cifras)"
proof (induction n rule: agrupar.induct)
  case (1 n)
  show ?case
  proof (cases "n < 1000")
    case True
    then show ?thesis using set_digitos [of n] by (subst agrupar.simps) auto
  next
    case False
    then show ?thesis using 1 set_tresDigitos [of n]
      by (subst agrupar.simps) auto
  qed
qed

lemma formatearPrecio_Num:
  "formatearPrecio p (Num n) = ''$'' @ (if n < 0 then ''-'' else []) @ agrupar (nat \<bar>n\<bar>)"
  by (simp add: formatearPrecio_def parseFloat_def toLocaleString_def)

text \<open>
  An integer written in decimal is read back by \<^verbatim>\<open>parseFloat\<close>: nothing is skipped as white
  space, the sign is read, every character is a digit, and the digits give the number.
\<close>

lemma digitos_no_vacio: "digitos n \<noteq> []"
  by (subst digitos.simps) simp

lemma blancos_no_vacios: "[] \<notin> set blancos"
  by (simp add: blancos_def)

lemma cabezas_blancos:
  "c \<in> set cifras \<or> c = CHR ''-'' \<Longrightarrow> c \<notin> hd ` set blancos"
  by (auto simp: blancos_def cifras_def)

lemma blanco_cifra:
  assumes "c \<in> set cifras \<or> c = CHR ''-''"
  shows "blancoInicial (c # cs) = 0"
proof -
  have "take (length b) (c # cs) \<noteq> b" if "b \<in> set blancos" for b
  proof
    assume e: "take (length b) (c # cs) = b"
    have "b \<noteq> []" using that blancos_no_vacios by auto
    then obtain x xs where b: "b = x # xs"
      by (cases b) auto
    then have "c = x" using e by simp
    then have "c \<in> hd ` set blancos" using that b by force
    then show False using assms cabezas_blancos by blast
  qed
  then have "filter (\<lambda>b. take (length b) (c # cs) = b) blancos = []"
    by (simp add: filter_empty_conv)
  then show ?thesis by (simp add: blancoInicial_def)
qed

lemma quitarBlancos_nada: "blancoInicial s = 0 \<Longrightarrow> quitarBlancos k s = s"
  by (cases k) simp_all

lemma cadena_cabeza:
  "\<exists>c cs. cadena n = c # cs \<and> (c \<in> set cifras \<or> c = CHR ''-'')"
proof (cases "n < 0")
  case True
  then show ?thesis by (simp add: cadena_def)
next
  case False
  obtain c cs where e: "digitos (nat \<bar>n\<bar>) = c # cs"
    using digitos_no_vacio [of "nat \<bar>n\<bar>"] by (cases "digitos (nat \<bar>n\<bar>)") auto
  then have "c \<in> set cifras" using set_digitos [of "nat \<bar>n\<bar>"] by auto
  with e False show ?thesis by (simp add: cadena_def)
qed

lemma quitarBlancos_cadena: "quitarBlancos k (cadena n) = cadena n"
proof -
  obtain c cs where "cadena n = c # cs" and "c \<in> set cifras \<or> c = CHR ''-''"
    using cadena_cabeza by blast
  then show ?thesis by (simp add: quitarBlancos_nada blanco_cifra)
qed

lemma signo_digitos: "signo (digitos n) = []"
proof -
  obtain c cs where e: "digitos n = c # cs"
    using digitos_no_vacio [of n] by (cases "digitos n") auto
  then have "c \<in> set cifras" using set_digitos [of n] by auto
  then have "c \<noteq> CHR ''+'' \<and> c \<noteq> CHR ''-''" by (auto simp: cifras_def)
  with e show ?thesis by (simp add: signo_def)
qed

lemma takeWhile_digitos: "takeWhile esDigito (digitos n) = digitos n"
  using set_digitos [of n] by (auto simp: esDigito_def takeWhile_eq_all_conv)

lemma dropWhile_digitos: "dropWhile esDigito (digitos n) = []"
  using set_digitos [of n] by (auto simp: esDigito_def dropWhile_eq_Nil_conv)

lemma infinity_digitos: "take 8 (digitos n) \<noteq> ''Infinity''"
proof
  assume a: "take 8 (digitos n) = ''Infinity''"
  have "CHR ''I'' \<in> set (take 8 (digitos n))" unfolding a by simp
  then have "CHR ''I'' \<in> set (digitos n)" by (rule in_set_takeD)
  then have "CHR ''I'' \<in> set cifras" using set_digitos [of n] by auto
  then show False by (simp add: cifras_def)
qed

lemma valor_cifra: "k < 10 \<Longrightarrow> of_char (cifras ! k) - 48 = k"
proof -
  assume "k < 10"
  then have "k \<in> {0, 1, 2, 3, 4, 5, 6, 7, 8, 9}" by auto
  then show ?thesis by (auto simp: cifras_def)
qed

lemma valorDigitos_snoc:
  "valorDigitos (ds @ [c]) = 10 * valorDigitos ds + (of_char c - 48)"
  by (simp add: valorDigitos_def)

lemma valorDigitos_digitos: "valorDigitos (digitos n) = n"
proof (induction n rule: digitos.induct)
  case (1 n)
  show ?case
  proof (cases "n < 10")
    case True
    then show ?thesis
      by (subst digitos.simps) (simp add: valorDigitos_def valor_cifra)
  next
    case False
    then have "valorDigitos (digitos n) = 10 * (n div 10) + n mod 10"
      using 1 by (subst digitos.simps) (simp add: valorDigitos_snoc valor_cifra)
    then show ?thesis by simp
  qed
qed

lemma parseFloatCadena_digitos: "parseFloatCadena (digitos n) = Entero (int n)"
proof -
  have q: "quitarBlancos (length (digitos n)) (digitos n) = digitos n"
    using quitarBlancos_cadena [of "length (digitos n)" "int n"] by (simp add: cadena_def)
  show ?thesis
    unfolding parseFloatCadena_def q
    by (simp add: Let_def signo_digitos takeWhile_digitos dropWhile_digitos infinity_digitos
        parteExponente_def valorDigitos_digitos digitos_no_vacio)
qed

lemma parseFloatCadena_negativo:
  "parseFloatCadena (''-'' @ digitos n) = Entero (- int n)"
proof -
  have q: "quitarBlancos (length (''-'' @ digitos n)) (''-'' @ digitos n) = ''-'' @ digitos n"
    by (simp add: quitarBlancos_nada blanco_cifra)
  show ?thesis
    unfolding parseFloatCadena_def q
    by (simp add: Let_def signo_def takeWhile_digitos dropWhile_digitos infinity_digitos
        parteExponente_def valorDigitos_digitos digitos_no_vacio)
qed

lemma parseFloat_cadena: "parseFloat (Str (cadena n)) = Entero n"
proof (cases "n < 0")
  case True
  then show ?thesis
    using parseFloatCadena_negativo [of "nat \<bar>n\<bar>"] by (simp add: parseFloat_def cadena_def)
next
  case False
  then show ?thesis
    using parseFloatCadena_digitos [of "nat \<bar>n\<bar>"] by (simp add: parseFloat_def cadena_def)
qed

lemma formatearPrecio_cadena: "formatearPrecio p (Str (cadena n)) = formatearPrecio p (Num n)"
  by (simp add: formatearPrecio_def parseFloat_cadena) (simp add: parseFloat_def)

lemmas evaluar_precio =
  formatearPrecio_def parseFloat_def parseFloatCadena_def toLocaleString_def agrupar.simps
  digitos.simps tresDigitos_def cifras_def blancoInicial_def blancos_def signo_def
  esDigito_def valorDigitos_def parteExponente_def cadena_def

lemma mset_insertar: "mset (insertar cmp x xs) = add_mset x (mset xs)"
  by (induction xs) simp_all

lemma ordenar_Cons: "ordenar cmp (x # xs) = insertar cmp x (ordenar cmp xs)"
  by (simp add: ordenar_def)

lemma mset_ordenar: "mset (ordenar cmp xs) = mset xs"
  by (induction xs) (simp_all add: ordenar_def mset_insertar)

lemma set_insertar: "set (insertar cmp x xs) = insert x (set xs)"
  by (induction xs) auto

lemma set_ordenar: "set (ordenar cmp xs) = set xs"
  by (metis mset_ordenar set_mset_mset)

text \<open>
  An insertion passes only elements the comparator puts before the new one, so among
  elements the comparator never separates it goes in front.
\<close>

lemma filter_insertar:
  assumes "\<And>y. P x \<Longrightarrow> P y \<Longrightarrow> \<not> vaDespues (cmp x y)"
  shows "filter P (insertar cmp x xs) = (if P x then x # filter P xs else filter P xs)"
  using assms by (induction xs) auto

lemma filter_ordenar:
  assumes "\<And>x y. P x \<Longrightarrow> P y \<Longrightarrow> \<not> vaDespues (cmp x y)"
  shows "filter P (ordenar cmp xs) = filter P xs"
proof (induction xs)
  case Nil
  show ?case by (simp add: ordenar_def)
next
  case (Cons x xs)
  have "filter P (insertar cmp x (ordenar cmp xs)) =
        (if P x then x # filter P (ordenar cmp xs) else filter P (ordenar cmp xs))"
    by (rule filter_insertar) (rule assms)
  with Cons show ?case by (simp add: ordenar_Cons)
qed

section \<open>The money format\<close>

lemma contiene_aqui: "sublist (a @ b @ c) (a @ b @ c @ resto)"
proof -
  have "a @ b @ c @ resto = [] @ (a @ b @ c) @ resto" by simp
  then show ?thesis unfolding sublist_def by blast
qed

lemma contiene_despues: "sublist x ys \<Longrightarrow> sublist x (zs @ ys)"
  by (metis sublist_append_leftI sublist_order.order_trans)

lemma tarjeta_precio:
  "sublist (''<p class=\"fs-5 fw-bold text-primary mb-3\">'' @
      formatearPrecio p (Num (total_orden orden)) @ ''</p>'') (tarjetaOrden p orden)"
  unfolding tarjetaOrden_def Let_def
  by (rule contiene_aqui | rule contiene_despues)+

lemma precio_item_en_ticket:
  assumes "it \<in> set (itemsDe orden)"
  shows "''    Precio: '' @ formatearPrecio p (Num (precio_unitario it * cantidad it))
          \<in> set (lineasTicket p orden)"
proof -
  have "''    Precio: '' @ formatearPrecio p (Num (precio_unitario it * cantidad it))
          \<in> set (lineasItem p it)"
    by (simp add: lineasItem_def Let_def)
  with assms have "''    Precio: '' @ formatearPrecio p (Num (precio_unitario it * cantidad it))
          \<in> set (concat (map (lineasItem p) (itemsDe orden)))"
    by auto
  then show ?thesis
    by (simp add: lineasTicket_def Let_def)
qed

lemma ticket_bloques:
  "lineasTicket p orden =
     ''========================================'' #
     ([''        PIZZER'' @ [CHR 0xC3, CHR 0x8D] @ ''A LA FORNACE'',
       ''        TICKET DE COCINA'',
       ''========================================'',
       [],
       ''Orden #: '' @ cadena (id_orden orden),
       ''Fecha: '' @ fecha_fh (formatearFechaHora p (fecha orden)),
       ''Hora: '' @ hora_fh (formatearFechaHora p (fecha orden)),
       [],
       ''----------------------------------------'',
       ''ITEMS DEL PEDIDO:'',
       ''----------------------------------------'',
       []] @
      concat (map (lineasItem p) (itemsDe orden)) @
      [''----------------------------------------'',
       ''DIRECCI'' @ [CHR 0xC3, CHR 0x93] @ ''N DE ENTREGA:'',
       ''----------------------------------------'',
       direccion orden,
       ''Tel: '' @ telefono orden,
       []] @
      (if verdadero (instrucciones_especiales orden)
       then [''INSTRUCCIONES ESPECIALES:'', aCadena (instrucciones_especiales orden), []]
       else []) @
      (case eta_minutos orden of
         None \<Rightarrow> []
       | Some eta \<Rightarrow> if eta \<noteq> 0 then [''ETA: '' @ cadena eta @ '' minutos'', []] else []) @
      [''----------------------------------------'',
       ''SUBTOTAL: '' @ formatearPrecio p (Num (subtotal orden)),
       ''ENV'' @ [CHR 0xC3, CHR 0x8D] @ ''O: '' @ formatearPrecio p (Num (costo_envio orden)),
       ''IVA: '' @ formatearPrecio p (Num (impuestos orden))] @
      (case descuento orden of
         None \<Rightarrow> []
       | Some d \<Rightarrow> if d > 0 then [''DESCUENTO: -'' @ formatearPrecio p (Num d)] else []) @
      [''----------------------------------------'',
       ''TOTAL: '' @ formatearPrecio p (Num (total_orden orden)),
       ''----------------------------------------'',
       [],
       ''Estado: '' @ aCadena (texto (obtenerInfoEstadoCocina (estado orden))),
       ''M'' @ [CHR 0xC3, CHR 0xA9] @ ''todo de pago: '' @
         (if verdadero (metodo_pago orden) then aCadena (metodo_pago orden)
          else ''No especificado''),
       []]) @
     [''========================================'']"
  unfolding lineasTicket_def Let_def separador_def separadorDoble_def by simp

lemma ticket_interior:
  "\<exists>mid. lineasTicket p orden =
       ''========================================'' # mid @ [''========================================'']
     \<and> set (concat (map (lineasItem p) (itemsDe orden))) \<subseteq> set mid
     \<and> ''SUBTOTAL: '' @ formatearPrecio p (Num (subtotal orden)) \<in> set mid
     \<and> ''ENV'' @ [CHR 0xC3, CHR 0x8D] @ ''O: '' @ formatearPrecio p (Num (costo_envio orden))
          \<in> set mid
     \<and> ''IVA: '' @ formatearPrecio p (Num (impuestos orden)) \<in> set mid
     \<and> ''TOTAL: '' @ formatearPrecio p (Num (total_orden orden)) \<in> set mid
     \<and> (\<forall>d. descuento orden = Some d \<and> 0 < d \<longrightarrow>
          ''DESCUENTO: -'' @ formatearPrecio p (Num d) \<in> set mid)"
  by (subst ticket_bloques, rule exI, intro conjI, rule refl) auto

lemma linea_en_ticket:
  assumes "lineasTicket p orden = h # mid @ [f]" and "l \<in> set mid"
  shows "sublist (nl @ l @ nl) (generarTicket p orden)"
  unfolding generarTicket_def assms(1) using assms(2) by (rule linea_en_texto)

lemma precios_en_ticket:
  "sublist (nl @ (''SUBTOTAL: '' @ formatearPrecio p (Num (subtotal orden))) @ nl)
     (generarTicket p orden)"
  "sublist (nl @ (''ENV'' @ [CHR 0xC3, CHR 0x8D] @ ''O: '' @
       formatearPrecio p (Num (costo_envio orden))) @ nl) (generarTicket p orden)"
  "sublist (nl @ (''IVA: '' @ formatearPrecio p (Num (impuestos orden))) @ nl)
     (generarTicket p orden)"
  "sublist (nl @ (''TOTAL: '' @ formatearPrecio p (Num (total_orden orden))) @ nl)
     (generarTicket p orden)"
  "descuento orden = Some d \<and> 0 < d \<longrightarrow>
     sublist (nl @ (''DESCUENTO: -'' @ formatearPrecio p (Num d)) @ nl) (generarTicket p orden)"
  "it \<in> set (itemsDe orden) \<longrightarrow>
     sublist (nl @ (''    Precio: '' @
       formatearPrecio p (Num (precio_unitario it * cantidad it))) @ nl) (generarTicket p orden)"
  "it \<in> set (itemsDe orden) \<and> extras it = Some es \<and> e \<in> set es \<longrightarrow>
     sublist (nl @ (''    + '' @ nombre_extra e @ '' ('' @
       formatearPrecio p (Num (precio e)) @ '')'') @ nl) (generarTicket p orden)"
proof -
  obtain mid where e: "lineasTicket p orden =
       ''========================================'' # mid @ [''========================================'']"
    and i: "set (concat (map (lineasItem p) (itemsDe orden))) \<subseteq> set mid"
    and s: "''SUBTOTAL: '' @ formatearPrecio p (Num (subtotal orden)) \<in> set mid"
    and v: "''ENV'' @ [CHR 0xC3, CHR 0x8D] @ ''O: '' @ formatearPrecio p (Num (costo_envio orden))
          \<in> set mid"
    and iv: "''IVA: '' @ formatearPrecio p (Num (impuestos orden)) \<in> set mid"
    and t: "''TOTAL: '' @ formatearPrecio p (Num (total_orden orden)) \<in> set mid"
    and d: "\<forall>d. descuento orden = Some d \<and> 0 < d \<longrightarrow>
          ''DESCUENTO: -'' @ formatearPrecio p (Num d) \<in> set mid"
    using ticket_interior [of p orden] by blast
  show "sublist (nl @ (''SUBTOTAL: '' @ formatearPrecio p (Num (subtotal orden))) @ nl)
     (generarTicket p orden)"
    using e s by (rule linea_en_ticket)
  show "sublist (nl @ (''ENV'' @ [CHR 0xC3, CHR 0x8D] @ ''O: '' @
       formatearPrecio p (Num (costo_envio orden))) @ nl) (generarTicket p orden)"
    using e v by (rule linea_en_ticket)
  show "sublist (nl @ (''IVA: '' @ formatearPrecio p (Num (impuestos orden))) @ nl)
     (generarTicket p orden)"
    using e iv by (rule linea_en_ticket)
  show "sublist (nl @ (''TOTAL: '' @ formatearPrecio p (Num (total_orden orden))) @ nl)
     (generarTicket p orden)"
    using e t by (rule linea_en_ticket)
  show "descuento orden = Some d \<and> 0 < d \<longrightarrow>
     sublist (nl @ (''DESCUENTO: -'' @ formatearPrecio p (Num d)) @ nl) (generarTicket p orden)"
  proof
    assume "descuento orden = Some d \<and> 0 < d"
    then have "''DESCUENTO: -'' @ formatearPrecio p (Num d) \<in> set mid" using d by blast
    with e show "sublist (nl @ (''DESCUENTO: -'' @ formatearPrecio p (Num d)) @ nl)
       (generarTicket p orden)"
      by (rule linea_en_ticket)
  qed
  show "it \<in> set (itemsDe orden) \<longrightarrow>
     sublist (nl @ (''    Precio: '' @
       formatearPrecio p (Num (precio_unitario it * cantidad it))) @ nl) (generarTicket p orden)"
  proof
    assume a: "it \<in> set (itemsDe orden)"
    have "''    Precio: '' @ formatearPrecio p (Num (precio_unitario it * cantidad it))
        \<in> set (lineasItem p it)"
      by (simp add: lineasItem_def Let_def)
    with a have "''    Precio: '' @ formatearPrecio p (Num (precio_unitario it * cantidad it))
        \<in> set (concat (map (lineasItem p) (itemsDe orden)))"
      by auto
    then have "''    Precio: '' @ formatearPrecio p (Num (precio_unitario it * cantidad it))
        \<in> set mid"
      using i by blast
    with e show "sublist (nl @ (''    Precio: '' @
       formatearPrecio p (Num (precio_unitario it * cantidad it))) @ nl) (generarTicket p orden)"
      by (rule linea_en_ticket)
  qed
  show "it \<in> set (itemsDe orden) \<and> extras it = Some es \<and> e \<in> set es \<longrightarrow>
     sublist (nl @ (''    + '' @ nombre_extra e @ '' ('' @
       formatearPrecio p (Num (precio e)) @ '')'') @ nl) (generarTicket p orden)"
  proof
    assume a: "it \<in> set (itemsDe orden) \<and> extras it = Some es \<and> e \<in> set es"
    then have "''    + '' @ nombre_extra e @ '' ('' @ formatearPrecio p (Num (precio e)) @ '')''
        \<in> set (lineasItem p it)"
      by (auto simp: lineasItem_def Let_def)
    with a have "''    + '' @ nombre_extra e @ '' ('' @ formatearPrecio p (Num (precio e)) @ '')''
        \<in> set (concat (map (lineasItem p) (itemsDe orden)))"
      by auto
    then have "''    + '' @ nombre_extra e @ '' ('' @ formatearPrecio p (Num (precio e)) @ '')''
        \<in> set mid"
      using i by blast
    with \<open>lineasTicket p orden =
       ''========================================'' # mid @ [''========================================'']\<close>
    show "sublist (nl @ (''    + '' @ nombre_extra e @ '' ('' @
       formatearPrecio p (Num (precio e)) @ '')'') @ nl) (generarTicket p orden)"
      by (rule linea_en_ticket)
  qed
qed

text \<open>
  Claim C4. \<^verbatim>\<open>formatearPrecio\<close> writes an amount as a dollar sign and the digits grouped
  for the locale, with no decimal places: 19600 gives \<^verbatim>\<open>$19.600\<close>, 0 gives \<^verbatim>\<open>$0\<close>, and the
  string \<^verbatim>\<open>22700\<close> is read as a number and gives \<^verbatim>\<open>$22.700\<close>. For every integer the result
  is the sign and the grouped digits, grouping adds nothing but full stops, and no
  decimal comma occurs. A string that holds an integer in decimal gives what the number
  gives, and a value that is no number gives \<^verbatim>\<open>$0\<close>. The same function gives every price
  that is shown: the total of the card in the order list and, in the text of the ticket,
  the line of each extra, the price of each item, the subtotal, the shipping cost, the
  tax, the discount and the total.
\<close>

theorem formatearPrecio_formato:
  "formatearPrecio p (Num 19600) = ''$19.600''
   \<and> formatearPrecio p (Num 0) = ''$0''
   \<and> formatearPrecio p (Str ''22700'') = ''$22.700''
   \<and> formatearPrecio p (Num n) = ''$'' @ (if n < 0 then ''-'' else []) @ agrupar (nat \<bar>n\<bar>)
   \<and> filter (\<lambda>c. c \<noteq> CHR ''.'') (agrupar m) = digitos m
   \<and> CHR '','' \<notin> set (formatearPrecio p (Num n))
   \<and> formatearPrecio p (Str (cadena n)) = formatearPrecio p (Num n)
   \<and> formatearPrecio p (Str ''abc'') = ''$0''
   \<and> formatearPrecio p Undefined = ''$0''
   \<and> sublist (''<p class=\"fs-5 fw-bold text-primary mb-3\">'' @
        formatearPrecio p (Num (total_orden orden)) @ ''</p>'') (tarjetaOrden p orden)
   \<and> ''SUBTOTAL: '' @ formatearPrecio p (Num (subtotal orden)) \<in> set (lineasTicket p orden)
   \<and> ''IVA: '' @ formatearPrecio p (Num (impuestos orden)) \<in> set (lineasTicket p orden)
   \<and> ''TOTAL: '' @ formatearPrecio p (Num (total_orden orden)) \<in> set (lineasTicket p orden)
   \<and> (it \<in> set (itemsDe orden) \<longrightarrow>
        ''    Precio: '' @ formatearPrecio p (Num (precio_unitario it * cantidad it))
          \<in> set (lineasTicket p orden))
   \<and> sublist (nl @ (''SUBTOTAL: '' @ formatearPrecio p (Num (subtotal orden))) @ nl)
        (generarTicket p orden)
   \<and> sublist (nl @ (''ENV'' @ [CHR 0xC3, CHR 0x8D] @ ''O: '' @
        formatearPrecio p (Num (costo_envio orden))) @ nl) (generarTicket p orden)
   \<and> sublist (nl @ (''IVA: '' @ formatearPrecio p (Num (impuestos orden))) @ nl)
        (generarTicket p orden)
   \<and> sublist (nl @ (''TOTAL: '' @ formatearPrecio p (Num (total_orden orden))) @ nl)
        (generarTicket p orden)
   \<and> (descuento orden = Some d \<and> 0 < d \<longrightarrow>
        sublist (nl @ (''DESCUENTO: -'' @ formatearPrecio p (Num d)) @ nl) (generarTicket p orden))
   \<and> (it \<in> set (itemsDe orden) \<longrightarrow>
        sublist (nl @ (''    Precio: '' @
          formatearPrecio p (Num (precio_unitario it * cantidad it))) @ nl) (generarTicket p orden))
   \<and> (it \<in> set (itemsDe orden) \<and> extras it = Some es \<and> e \<in> set es \<longrightarrow>
        sublist (nl @ (''    + '' @ nombre_extra e @ '' ('' @
          formatearPrecio p (Num (precio e)) @ '')'') @ nl) (generarTicket p orden))"
proof -
  have a: "formatearPrecio p (Num 19600) = ''$19.600''"
    by (simp add: evaluar_precio)
  have b: "formatearPrecio p (Num 0) = ''$0''"
    by (simp add: evaluar_precio)
  have c: "formatearPrecio p (Str ''22700'') = ''$22.700''"
    by (simp add: evaluar_precio)
  have d: "CHR '','' \<notin> set (formatearPrecio p (Num n))"
    using set_agrupar [of "nat \<bar>n\<bar>"] coma_cifras by (auto simp: formatearPrecio_Num)
  have e: "''SUBTOTAL: '' @ formatearPrecio p (Num (subtotal orden)) \<in> set (lineasTicket p orden)"
    by (simp add: lineasTicket_def Let_def)
  have f: "''IVA: '' @ formatearPrecio p (Num (impuestos orden)) \<in> set (lineasTicket p orden)"
    by (simp add: lineasTicket_def Let_def)
  have g: "''TOTAL: '' @ formatearPrecio p (Num (total_orden orden)) \<in> set (lineasTicket p orden)"
    by (simp add: lineasTicket_def Let_def)
  have h: "formatearPrecio p (Str ''abc'') = ''$0''"
    by (simp add: evaluar_precio)
  have i: "formatearPrecio p Undefined = ''$0''"
    by (simp add: evaluar_precio)
  have j: "it \<in> set (itemsDe orden) \<longrightarrow>
        ''    Precio: '' @ formatearPrecio p (Num (precio_unitario it * cantidad it))
          \<in> set (lineasTicket p orden)"
    using precio_item_en_ticket by blast
  show ?thesis
    by (intro conjI a b c d e f g h i j formatearPrecio_Num agrupar_digitos tarjeta_precio
        formatearPrecio_cadena precios_en_ticket)
qed

theorem formatearPrecio_formato_witness:
  "\<lparr>cantidad = 1, nombre = ''Pepperoni'', tamanio = None,
     extras = Some [\<lparr>nombre_extra = ''Queso'', precio = 1500\<rparr>],
     notas = Some ''Sin cebolla'', precio_unitario = 19600\<rparr> \<in> set (itemsDe ordenCompleta)
   \<and> \<lparr>nombre_extra = ''Queso'', precio = 1500\<rparr> \<in> set [\<lparr>nombre_extra = ''Queso'', precio = 1500\<rparr>]
   \<and> descuento ordenCompleta = Some 500 \<and> (0::int) < 500
   \<and> ''    Precio: $19.600'' \<in> set (lineasTicket plataformaMuestra ordenCompleta)
   \<and> sublist (nl @ ''    Precio: $19.600'' @ nl) (generarTicket plataformaMuestra ordenCompleta)
   \<and> sublist (nl @ ''    + Queso ($1.500)'' @ nl) (generarTicket plataformaMuestra ordenCompleta)
   \<and> sublist (nl @ ''DESCUENTO: -$500'' @ nl) (generarTicket plataformaMuestra ordenCompleta)
   \<and> sublist (nl @ ''SUBTOTAL: $21.100'' @ nl) (generarTicket plataformaMuestra ordenCompleta)
   \<and> sublist (nl @ ''TOTAL: $25.600'' @ nl) (generarTicket plataformaMuestra ordenCompleta)"
  using formatearPrecio_formato [where p = plataformaMuestra and orden = ordenCompleta
      and it = "\<lparr>cantidad = 1, nombre = ''Pepperoni'', tamanio = None,
         extras = Some [\<lparr>nombre_extra = ''Queso'', precio = 1500\<rparr>],
         notas = Some ''Sin cebolla'', precio_unitario = 19600\<rparr>"
      and es = "[\<lparr>nombre_extra = ''Queso'', precio = 1500\<rparr>]"
      and e = "\<lparr>nombre_extra = ''Queso'', precio = 1500\<rparr>" and d = 500 and n = 0 and m = 0]
  by (simp add: ordenCompleta_def itemsDe_def evaluar_precio)

section \<open>The layout of the ticket\<close>

lemma partir_lineas:
  assumes "take 4 xs = h" and "last xs = f" and "6 \<le> length xs"
  shows "\<exists>medio. medio \<noteq> [] \<and> xs = h @ medio @ [f]"
proof -
  have d: "drop 4 xs \<noteq> []" using assms(3) by simp
  have l: "2 \<le> length (drop 4 xs)" using assms(3) by simp
  have "last (drop 4 xs) = last xs" using d by (simp add: last_drop)
  then have "drop 4 xs = butlast (drop 4 xs) @ [f]"
    using d assms(2) by (metis append_butlast_last_id)
  moreover have "xs = take 4 xs @ drop 4 xs" by simp
  moreover have "butlast (drop 4 xs) \<noteq> []"
  proof
    assume "butlast (drop 4 xs) = []"
    then have "length (butlast (drop 4 xs)) = 0" by simp
    then show False using l by simp
  qed
  ultimately show ?thesis using assms(1) by metis
qed

lemma join_cabecera_pie:
  assumes "medio \<noteq> []"
  shows "join sep ([a, b, c, d] @ medio @ [f]) =
         a @ sep @ b @ sep @ c @ sep @ d @ sep @ join sep medio @ sep @ f"
proof -
  have "join sep ([a, b, c, d] @ medio @ [f]) = join sep [a, b, c, d] @ sep @ join sep (medio @ [f])"
    using assms by (intro join_append) simp_all
  also have "join sep (medio @ [f]) = join sep medio @ sep @ join sep [f]"
    using assms by (intro join_append) simp_all
  finally show ?thesis by simp
qed

lemma ticket_primeras:
  "take 4 (lineasTicket p orden) =
     [''========================================'',
      ''        PIZZER'' @ [CHR 0xC3, CHR 0x8D] @ ''A LA FORNACE'',
      ''        TICKET DE COCINA'',
      ''========================================'']"
  by (simp add: lineasTicket_def Let_def separadorDoble_def)

lemma ticket_ultima:
  "last (lineasTicket p orden) = ''========================================''"
  by (simp add: lineasTicket_def Let_def separadorDoble_def)

lemma length_lineasItem:
  "length (lineasItem p it) =
     3 + (case extras it of None \<Rightarrow> 0 | Some es \<Rightarrow> length es) +
     (if verdadero (notas it) then 1 else 0)"
  by (simp add: lineasItem_def Let_def split: option.splits)

lemma length_lineasTicket:
  "length (lineasTicket p orden) =
     31 + (\<Sum>it\<leftarrow>itemsDe orden.
             3 + (case extras it of None \<Rightarrow> 0 | Some es \<Rightarrow> length es) +
             (if verdadero (notas it) then 1 else 0)) +
     (if verdadero (instrucciones_especiales orden) then 3 else 0) +
     (case eta_minutos orden of None \<Rightarrow> 0 | Some eta \<Rightarrow> if eta \<noteq> 0 then 2 else 0) +
     (case descuento orden of None \<Rightarrow> 0 | Some d \<Rightarrow> if d > 0 then 1 else 0)"
  by (simp add: lineasTicket_def Let_def length_concat comp_def length_lineasItem
      split: option.splits)

lemma ticket_texto:
  "\<exists>medio. generarTicket p orden =
         ''========================================'' @ nl @
         (''        PIZZER'' @ [CHR 0xC3, CHR 0x8D] @ ''A LA FORNACE'') @ nl @
         ''        TICKET DE COCINA'' @ nl @
         ''========================================'' @ nl @
         medio @ nl @
         ''========================================''"
proof -
  have "6 \<le> length (lineasTicket p orden)"
    by (simp add: length_lineasTicket)
  from partir_lineas [OF ticket_primeras ticket_ultima this]
  obtain medio where m: "medio \<noteq> []"
    and e: "lineasTicket p orden =
     [''========================================'',
      ''        PIZZER'' @ [CHR 0xC3, CHR 0x8D] @ ''A LA FORNACE'',
      ''        TICKET DE COCINA'',
      ''========================================''] @ medio @
     [''========================================'']"
    by blast
  show ?thesis
    unfolding generarTicket_def e join_cabecera_pie [OF m] by (rule exI) (rule refl)
qed

lemma texto_item:
  "concat (map (\<lambda>x. x @ nl) (lineasItem p it)) =
     cadena (cantidad it) @ ''x '' @ nombre it @
     (if verdadero (nombreTamanio it) then '' ('' @ aCadena (nombreTamanio it) @ '')'' else []) @ nl @
     (case extras it of
        None \<Rightarrow> []
      | Some es \<Rightarrow>
          concat (map (\<lambda>e. ''    + '' @ nombre_extra e @ '' ('' @
            formatearPrecio p (Num (precio e)) @ '')'' @ nl) es)) @
     (if verdadero (notas it) then ''    Notas: '' @ aCadena (notas it) @ nl else []) @
     ''    Precio: '' @ formatearPrecio p (Num (precio_unitario it * cantidad it)) @ nl @ nl"
  by (simp add: lineasItem_def Let_def comp_def split: option.splits)

lemma texto_items:
  "concat (map (\<lambda>x. x @ nl) (concat (map (lineasItem p) its))) =
   concat (map (\<lambda>it. concat (map (\<lambda>x. x @ nl) (lineasItem p it))) its)"
  by (induction its) simp_all

lemma ticket_texto_completo:
  "generarTicket p orden =
     ''========================================'' @ nl @
     (''        PIZZER'' @ [CHR 0xC3, CHR 0x8D] @ ''A LA FORNACE'') @ nl @
     ''        TICKET DE COCINA'' @ nl @
     ''========================================'' @ nl @
     nl @
     ''Orden #: '' @ cadena (id_orden orden) @ nl @
     ''Fecha: '' @ fecha_fh (formatearFechaHora p (fecha orden)) @ nl @
     ''Hora: '' @ hora_fh (formatearFechaHora p (fecha orden)) @ nl @
     nl @
     ''----------------------------------------'' @ nl @
     ''ITEMS DEL PEDIDO:'' @ nl @
     ''----------------------------------------'' @ nl @
     nl @
     concat (map (\<lambda>it.
       cadena (cantidad it) @ ''x '' @ nombre it @
       (if verdadero (nombreTamanio it) then '' ('' @ aCadena (nombreTamanio it) @ '')'' else []) @ nl @
       (case extras it of
          None \<Rightarrow> []
        | Some es \<Rightarrow>
            concat (map (\<lambda>e. ''    + '' @ nombre_extra e @ '' ('' @
              formatearPrecio p (Num (precio e)) @ '')'' @ nl) es)) @
       (if verdadero (notas it) then ''    Notas: '' @ aCadena (notas it) @ nl else []) @
       ''    Precio: '' @ formatearPrecio p (Num (precio_unitario it * cantidad it)) @ nl @ nl)
       (itemsDe orden)) @
     ''----------------------------------------'' @ nl @
     (''DIRECCI'' @ [CHR 0xC3, CHR 0x93] @ ''N DE ENTREGA:'') @ nl @
     ''----------------------------------------'' @ nl @
     direccion orden @ nl @
     ''Tel: '' @ telefono orden @ nl @
     nl @
     (if verdadero (instrucciones_especiales orden)
      then ''INSTRUCCIONES ESPECIALES:'' @ nl @ aCadena (instrucciones_especiales orden) @ nl @ nl
      else []) @
     (case eta_minutos orden of
        None \<Rightarrow> []
      | Some eta \<Rightarrow> if eta \<noteq> 0 then ''ETA: '' @ cadena eta @ '' minutos'' @ nl @ nl else []) @
     ''----------------------------------------'' @ nl @
     ''SUBTOTAL: '' @ formatearPrecio p (Num (subtotal orden)) @ nl @
     (''ENV'' @ [CHR 0xC3, CHR 0x8D] @ ''O: '') @ formatearPrecio p (Num (costo_envio orden)) @ nl @
     ''IVA: '' @ formatearPrecio p (Num (impuestos orden)) @ nl @
     (case descuento orden of
        None \<Rightarrow> []
      | Some d \<Rightarrow> if 0 < d then ''DESCUENTO: -'' @ formatearPrecio p (Num d) @ nl else []) @
     ''----------------------------------------'' @ nl @
     ''TOTAL: '' @ formatearPrecio p (Num (total_orden orden)) @ nl @
     ''----------------------------------------'' @ nl @
     nl @
     ''Estado: '' @ aCadena (texto (obtenerInfoEstadoCocina (estado orden))) @ nl @
     (''M'' @ [CHR 0xC3, CHR 0xA9] @ ''todo de pago: '') @
       (if verdadero (metodo_pago orden) then aCadena (metodo_pago orden)
        else ''No especificado'') @ nl @
     nl @
     ''========================================''"
proof -
  define f where "f = (\<lambda>x::string. x @ nl)"
  define B1 where "B1 =
    [''========================================'',
     ''        PIZZER'' @ [CHR 0xC3, CHR 0x8D] @ ''A LA FORNACE'',
     ''        TICKET DE COCINA'',
     ''========================================'',
     [],
     ''Orden #: '' @ cadena (id_orden orden),
     ''Fecha: '' @ fecha_fh (formatearFechaHora p (fecha orden)),
     ''Hora: '' @ hora_fh (formatearFechaHora p (fecha orden)),
     [],
     ''----------------------------------------'',
     ''ITEMS DEL PEDIDO:'',
     ''----------------------------------------'',
     []]"
  define I where "I = concat (map (lineasItem p) (itemsDe orden))"
  define B2 where "B2 =
    [''----------------------------------------'',
     ''DIRECCI'' @ [CHR 0xC3, CHR 0x93] @ ''N DE ENTREGA:'',
     ''----------------------------------------'',
     direccion orden,
     ''Tel: '' @ telefono orden,
     []]"
  define O1 where "O1 =
    (if verdadero (instrucciones_especiales orden)
     then [''INSTRUCCIONES ESPECIALES:'', aCadena (instrucciones_especiales orden), []]
     else [])"
  define O2 where "O2 =
    (case eta_minutos orden of
       None \<Rightarrow> []
     | Some eta \<Rightarrow> if eta \<noteq> 0 then [''ETA: '' @ cadena eta @ '' minutos'', []] else [])"
  define B3 where "B3 =
    [''----------------------------------------'',
     ''SUBTOTAL: '' @ formatearPrecio p (Num (subtotal orden)),
     ''ENV'' @ [CHR 0xC3, CHR 0x8D] @ ''O: '' @ formatearPrecio p (Num (costo_envio orden)),
     ''IVA: '' @ formatearPrecio p (Num (impuestos orden))]"
  define O3 where "O3 =
    (case descuento orden of
       None \<Rightarrow> []
     | Some d \<Rightarrow> if d > 0 then [''DESCUENTO: -'' @ formatearPrecio p (Num d)] else [])"
  define B4 where "B4 =
    [''----------------------------------------'',
     ''TOTAL: '' @ formatearPrecio p (Num (total_orden orden)),
     ''----------------------------------------'',
     [],
     ''Estado: '' @ aCadena (texto (obtenerInfoEstadoCocina (estado orden))),
     ''M'' @ [CHR 0xC3, CHR 0xA9] @ ''todo de pago: '' @
       (if verdadero (metodo_pago orden) then aCadena (metodo_pago orden)
        else ''No especificado''),
     []]"
  have e: "lineasTicket p orden =
      (B1 @ I @ B2 @ O1 @ O2 @ B3 @ O3 @ B4) @ [''========================================'']"
    unfolding lineasTicket_def Let_def B1_def I_def B2_def O1_def O2_def B3_def O3_def B4_def
      separador_def separadorDoble_def
    by simp
  have g: "generarTicket p orden =
      concat (map f B1) @ concat (map f I) @ concat (map f B2) @ concat (map f O1) @
      concat (map f O2) @ concat (map f B3) @ concat (map f O3) @ concat (map f B4) @
      ''========================================''"
    unfolding generarTicket_def e f_def by (simp add: join_concat)
  have t1: "concat (map f B1) =
     ''========================================'' @ nl @
     (''        PIZZER'' @ [CHR 0xC3, CHR 0x8D] @ ''A LA FORNACE'') @ nl @
     ''        TICKET DE COCINA'' @ nl @
     ''========================================'' @ nl @
     nl @
     ''Orden #: '' @ cadena (id_orden orden) @ nl @
     ''Fecha: '' @ fecha_fh (formatearFechaHora p (fecha orden)) @ nl @
     ''Hora: '' @ hora_fh (formatearFechaHora p (fecha orden)) @ nl @
     nl @
     ''----------------------------------------'' @ nl @
     ''ITEMS DEL PEDIDO:'' @ nl @
     ''----------------------------------------'' @ nl @
     nl"
    by (simp add: B1_def f_def)
  have ti: "concat (map f I) =
     concat (map (\<lambda>it.
       cadena (cantidad it) @ ''x '' @ nombre it @
       (if verdadero (nombreTamanio it) then '' ('' @ aCadena (nombreTamanio it) @ '')'' else []) @ nl @
       (case extras it of
          None \<Rightarrow> []
        | Some es \<Rightarrow>
            concat (map (\<lambda>e. ''    + '' @ nombre_extra e @ '' ('' @
              formatearPrecio p (Num (precio e)) @ '')'' @ nl) es)) @
       (if verdadero (notas it) then ''    Notas: '' @ aCadena (notas it) @ nl else []) @
       ''    Precio: '' @ formatearPrecio p (Num (precio_unitario it * cantidad it)) @ nl @ nl)
       (itemsDe orden))"
    unfolding I_def f_def texto_items texto_item by (rule refl)
  have t2: "concat (map f B2) =
     ''----------------------------------------'' @ nl @
     (''DIRECCI'' @ [CHR 0xC3, CHR 0x93] @ ''N DE ENTREGA:'') @ nl @
     ''----------------------------------------'' @ nl @
     direccion orden @ nl @
     ''Tel: '' @ telefono orden @ nl @
     nl"
    by (simp add: B2_def f_def)
  have o1: "concat (map f O1) =
     (if verdadero (instrucciones_especiales orden)
      then ''INSTRUCCIONES ESPECIALES:'' @ nl @ aCadena (instrucciones_especiales orden) @ nl @ nl
      else [])"
    by (simp add: O1_def f_def)
  have o2: "concat (map f O2) =
     (case eta_minutos orden of
        None \<Rightarrow> []
      | Some eta \<Rightarrow> if eta \<noteq> 0 then ''ETA: '' @ cadena eta @ '' minutos'' @ nl @ nl else [])"
    by (simp add: O2_def f_def split: option.splits)
  have t3: "concat (map f B3) =
     ''----------------------------------------'' @ nl @
     ''SUBTOTAL: '' @ formatearPrecio p (Num (subtotal orden)) @ nl @
     (''ENV'' @ [CHR 0xC3, CHR 0x8D] @ ''O: '') @ formatearPrecio p (Num (costo_envio orden)) @ nl @
     ''IVA: '' @ formatearPrecio p (Num (impuestos orden)) @ nl"
    by (simp add: B3_def f_def)
  have o3: "concat (map f O3) =
     (case descuento orden of
        None \<Rightarrow> []
      | Some d \<Rightarrow> if 0 < d then ''DESCUENTO: -'' @ formatearPrecio p (Num d) @ nl else [])"
    by (simp add: O3_def f_def split: option.splits)
  have t4: "concat (map f B4) =
     ''----------------------------------------'' @ nl @
     ''TOTAL: '' @ formatearPrecio p (Num (total_orden orden)) @ nl @
     ''----------------------------------------'' @ nl @
     nl @
     ''Estado: '' @ aCadena (texto (obtenerInfoEstadoCocina (estado orden))) @ nl @
     (''M'' @ [CHR 0xC3, CHR 0xA9] @ ''todo de pago: '') @
       (if verdadero (metodo_pago orden) then aCadena (metodo_pago orden)
        else ''No especificado'') @ nl @
     nl"
    by (simp add: B4_def f_def)
  show ?thesis
    unfolding g t1 ti t2 o1 o2 t3 o3 t4 by (simp only: append_assoc)
qed

lemma ticket_ultimo_caracter: "last (generarTicket p orden) = CHR ''=''"
proof -
  obtain medio where "generarTicket p orden =
         ''========================================'' @ nl @
         (''        PIZZER'' @ [CHR 0xC3, CHR 0x8D] @ ''A LA FORNACE'') @ nl @
         ''        TICKET DE COCINA'' @ nl @
         ''========================================'' @ nl @
         medio @ nl @
         ''========================================''"
    using ticket_texto by blast
  then show ?thesis by simp
qed

text \<open>
  Claim C10. Whatever the order holds, the ticket begins with the four lines of the
  banner (a double rule, the name of the pizzeria, the title, a double rule) and its last
  line is the double rule of the footer: so it is for the array of lines, and so for the
  text, where every line of the banner is followed by a line feed and the footer comes
  after one.
\<close>

theorem ticket_cabecera_pie:
  "take 4 (lineasTicket p orden) =
     [''========================================'',
      ''        PIZZER'' @ [CHR 0xC3, CHR 0x8D] @ ''A LA FORNACE'',
      ''        TICKET DE COCINA'',
      ''========================================'']
   \<and> last (lineasTicket p orden) = ''========================================''
   \<and> (\<exists>medio. generarTicket p orden =
         ''========================================'' @ nl @
         (''        PIZZER'' @ [CHR 0xC3, CHR 0x8D] @ ''A LA FORNACE'') @ nl @
         ''        TICKET DE COCINA'' @ nl @
         ''========================================'' @ nl @
         medio @ nl @
         ''========================================'')"
  by (intro conjI ticket_primeras ticket_ultima ticket_texto)

lemmas evaluar_ticket =
  lineasTicket_def lineasItem_def itemsDe_def nombreTamanio_def formatearFechaHora_def
  obtenerInfoEstadoCocina_def estados_def heredadas_def sinPropiedades_def aCadena_def
  verdadero_def separador_def separadorDoble_def Let_def

lemma ticket_totales:
  "rev (lineasTicket p orden) ! 8 =
     (case descuento orden of
        None \<Rightarrow> ''IVA: '' @ formatearPrecio p (Num (impuestos orden))
      | Some d \<Rightarrow>
          if 0 < d then ''DESCUENTO: -'' @ formatearPrecio p (Num d)
          else ''IVA: '' @ formatearPrecio p (Num (impuestos orden)))"
  "rev (lineasTicket p orden) ! 7 = ''----------------------------------------''"
  "rev (lineasTicket p orden) ! 6 = ''TOTAL: '' @ formatearPrecio p (Num (total_orden orden))"
  by (simp_all add: lineasTicket_def Let_def separador_def split: option.splits)

lemma ticket_descuento_sii:
  "(take 12 (rev (lineasTicket p orden) ! 8) = ''DESCUENTO: -'') =
   (\<exists>d. descuento orden = Some d \<and> 0 < d)"
  by (simp add: ticket_totales split: option.splits)

lemma ticket_metodo_pago:
  "metodo_pago orden = None \<Longrightarrow>
   rev (lineasTicket p orden) ! 2 = ''M'' @ [CHR 0xC3, CHR 0xA9] @ ''todo de pago: No especificado''"
  by (simp add: lineasTicket_def Let_def verdadero_def)

lemma ticket_sin_opcionales:
  assumes "itemsDe orden = []" and "instrucciones_especiales orden = None"
    and "eta_minutos orden = None" and "descuento orden = None" and "metodo_pago orden = None"
  shows "lineasTicket p orden =
     [''========================================'',
      ''        PIZZER'' @ [CHR 0xC3, CHR 0x8D] @ ''A LA FORNACE'',
      ''        TICKET DE COCINA'',
      ''========================================'',
      [],
      ''Orden #: '' @ cadena (id_orden orden),
      ''Fecha: '' @ fecha_fh (formatearFechaHora p (fecha orden)),
      ''Hora: '' @ hora_fh (formatearFechaHora p (fecha orden)),
      [],
      ''----------------------------------------'',
      ''ITEMS DEL PEDIDO:'',
      ''----------------------------------------'',
      [],
      ''----------------------------------------'',
      ''DIRECCI'' @ [CHR 0xC3, CHR 0x93] @ ''N DE ENTREGA:'',
      ''----------------------------------------'',
      direccion orden,
      ''Tel: '' @ telefono orden,
      [],
      ''----------------------------------------'',
      ''SUBTOTAL: '' @ formatearPrecio p (Num (subtotal orden)),
      ''ENV'' @ [CHR 0xC3, CHR 0x8D] @ ''O: '' @ formatearPrecio p (Num (costo_envio orden)),
      ''IVA: '' @ formatearPrecio p (Num (impuestos orden)),
      ''----------------------------------------'',
      ''TOTAL: '' @ formatearPrecio p (Num (total_orden orden)),
      ''----------------------------------------'',
      [],
      ''Estado: '' @ aCadena (texto (obtenerInfoEstadoCocina (estado orden))),
      ''M'' @ [CHR 0xC3, CHR 0xA9] @ ''todo de pago: No especificado'',
      [],
      ''========================================'']"
  using assms by (simp add: lineasTicket_def Let_def verdadero_def separador_def separadorDoble_def)

lemma item_sin_opcionales:
  assumes "extras it = None \<or> extras it = Some []" and "notas it = None" and "tamanio it = None"
  shows "lineasItem p it =
     [cadena (cantidad it) @ ''x '' @ nombre it,
      ''    Precio: '' @ formatearPrecio p (Num (precio_unitario it * cantidad it)),
      []]"
  using assms by (auto simp: lineasItem_def Let_def verdadero_def nombreTamanio_def)

lemma ticket_orden77:
  "lineasTicket p orden77 =
     [''========================================'',
      ''        PIZZER'' @ [CHR 0xC3, CHR 0x8D] @ ''A LA FORNACE'',
      ''        TICKET DE COCINA'',
      ''========================================'',
      [],
      ''Orden #: 77'',
      ''Fecha: Sin fecha'',
      ''Hora: '',
      [],
      ''----------------------------------------'',
      ''ITEMS DEL PEDIDO:'',
      ''----------------------------------------'',
      [],
      ''2x Hawaiana (grande)'',
      ''    Precio: $39.200'',
      [],
      ''----------------------------------------'',
      ''DIRECCI'' @ [CHR 0xC3, CHR 0x93] @ ''N DE ENTREGA:'',
      ''----------------------------------------'',
      ''Calle 1'',
      ''Tel: +56912345678'',
      [],
      ''----------------------------------------'',
      ''SUBTOTAL: $39.200'',
      ''ENV'' @ [CHR 0xC3, CHR 0x8D] @ ''O: $2.000'',
      ''IVA: $3.000'',
      ''----------------------------------------'',
      ''TOTAL: $44.200'',
      ''----------------------------------------'',
      [],
      ''Estado: Pendiente'',
      ''M'' @ [CHR 0xC3, CHR 0xA9] @ ''todo de pago: No especificado'',
      [],
      ''========================================'']"
  by (simp add: orden77_def evaluar_ticket evaluar_precio)

lemma ticket_texto_orden77:
  "generarTicket p orden77 =
     ''========================================'' @ nl @
     (''        PIZZER'' @ [CHR 0xC3, CHR 0x8D] @ ''A LA FORNACE'') @ nl @
     ''        TICKET DE COCINA'' @ nl @
     ''========================================'' @ nl @
     nl @
     ''Orden #: 77'' @ nl @
     ''Fecha: Sin fecha'' @ nl @
     ''Hora: '' @ nl @
     nl @
     ''----------------------------------------'' @ nl @
     ''ITEMS DEL PEDIDO:'' @ nl @
     ''----------------------------------------'' @ nl @
     nl @
     ''2x Hawaiana (grande)'' @ nl @
     ''    Precio: $39.200'' @ nl @
     nl @
     ''----------------------------------------'' @ nl @
     (''DIRECCI'' @ [CHR 0xC3, CHR 0x93] @ ''N DE ENTREGA:'') @ nl @
     ''----------------------------------------'' @ nl @
     ''Calle 1'' @ nl @
     ''Tel: +56912345678'' @ nl @
     nl @
     ''----------------------------------------'' @ nl @
     ''SUBTOTAL: $39.200'' @ nl @
     (''ENV'' @ [CHR 0xC3, CHR 0x8D] @ ''O: $2.000'') @ nl @
     ''IVA: $3.000'' @ nl @
     ''----------------------------------------'' @ nl @
     ''TOTAL: $44.200'' @ nl @
     ''----------------------------------------'' @ nl @
     nl @
     ''Estado: Pendiente'' @ nl @
     (''M'' @ [CHR 0xC3, CHR 0xA9] @ ''todo de pago: No especificado'') @ nl @
     nl @
     ''========================================''"
  unfolding generarTicket_def ticket_orden77 by (simp only: join.simps append_Nil)

lemma ticket_cola:
  "suffix
     (nl @ ''IVA: '' @ formatearPrecio p (Num (impuestos orden)) @ nl @
      (case descuento orden of
         None \<Rightarrow> []
       | Some d \<Rightarrow> if 0 < d then ''DESCUENTO: -'' @ formatearPrecio p (Num d) @ nl else []) @
      ''----------------------------------------'' @ nl @
      ''TOTAL: '' @ formatearPrecio p (Num (total_orden orden)) @ nl @
      ''----------------------------------------'' @ nl @
      nl @
      ''Estado: '' @ aCadena (texto (obtenerInfoEstadoCocina (estado orden))) @ nl @
      (''M'' @ [CHR 0xC3, CHR 0xA9] @ ''todo de pago: '') @
        (if verdadero (metodo_pago orden) then aCadena (metodo_pago orden)
         else ''No especificado'') @ nl @
      nl @
      ''========================================'')
     (generarTicket p orden)"
  unfolding ticket_texto_completo
  by (rule suffix_order.refl | rule suffix_appendI)+

lemma ticket_texto_sin_opcionales:
  assumes "itemsDe orden = []" and "instrucciones_especiales orden = None"
    and "eta_minutos orden = None" and "descuento orden = None" and "metodo_pago orden = None"
  shows "generarTicket p orden =
     ''========================================'' @ nl @
     (''        PIZZER'' @ [CHR 0xC3, CHR 0x8D] @ ''A LA FORNACE'') @ nl @
     ''        TICKET DE COCINA'' @ nl @
     ''========================================'' @ nl @
     nl @
     ''Orden #: '' @ cadena (id_orden orden) @ nl @
     ''Fecha: '' @ fecha_fh (formatearFechaHora p (fecha orden)) @ nl @
     ''Hora: '' @ hora_fh (formatearFechaHora p (fecha orden)) @ nl @
     nl @
     ''----------------------------------------'' @ nl @
     ''ITEMS DEL PEDIDO:'' @ nl @
     ''----------------------------------------'' @ nl @
     nl @
     ''----------------------------------------'' @ nl @
     (''DIRECCI'' @ [CHR 0xC3, CHR 0x93] @ ''N DE ENTREGA:'') @ nl @
     ''----------------------------------------'' @ nl @
     direccion orden @ nl @
     ''Tel: '' @ telefono orden @ nl @
     nl @
     ''----------------------------------------'' @ nl @
     ''SUBTOTAL: '' @ formatearPrecio p (Num (subtotal orden)) @ nl @
     (''ENV'' @ [CHR 0xC3, CHR 0x8D] @ ''O: '') @ formatearPrecio p (Num (costo_envio orden)) @ nl @
     ''IVA: '' @ formatearPrecio p (Num (impuestos orden)) @ nl @
     ''----------------------------------------'' @ nl @
     ''TOTAL: '' @ formatearPrecio p (Num (total_orden orden)) @ nl @
     ''----------------------------------------'' @ nl @
     nl @
     ''Estado: '' @ aCadena (texto (obtenerInfoEstadoCocina (estado orden))) @ nl @
     (''M'' @ [CHR 0xC3, CHR 0xA9] @ ''todo de pago: No especificado'') @ nl @
     nl @
     ''========================================''"
  unfolding ticket_texto_completo using assms by (simp add: verdadero_def)


text \<open>
  Claim C3, as the code has it. The ticket \<^verbatim>\<open>generarTicket\<close> returns for order 77 of the
  scenario is written out below, as the array of lines and as the text: it has the line
  \<^verbatim>\<open>2x Hawaiana (grande)\<close>, then the price line, which is indented by four spaces, no
  discount line, and the line \<^verbatim>\<open>TOTAL: $44.200\<close>; after that line come a rule, an empty
  line, the status, the payment method, an empty line and the footer, so the total is the
  last amount and not the end of the ticket. For every order the text ends with the tax
  line, then the discount line exactly when the discount is positive (it is then
  \<^verbatim>\<open>DESCUENTO: -\<close> followed by the formatted discount), then the rule, the total and the
  closing lines.
\<close>

theorem ticket_escenario:
  "(descuento orden = Some d \<and> 0 < d \<longrightarrow>
        rev (lineasTicket p orden) ! 8 = ''DESCUENTO: -'' @ formatearPrecio p (Num d))
   \<and> lineasTicket p orden77 =
     [''========================================'',
      ''        PIZZER'' @ [CHR 0xC3, CHR 0x8D] @ ''A LA FORNACE'',
      ''        TICKET DE COCINA'',
      ''========================================'',
      [],
      ''Orden #: 77'',
      ''Fecha: Sin fecha'',
      ''Hora: '',
      [],
      ''----------------------------------------'',
      ''ITEMS DEL PEDIDO:'',
      ''----------------------------------------'',
      [],
      ''2x Hawaiana (grande)'',
      ''    Precio: $39.200'',
      [],
      ''----------------------------------------'',
      ''DIRECCI'' @ [CHR 0xC3, CHR 0x93] @ ''N DE ENTREGA:'',
      ''----------------------------------------'',
      ''Calle 1'',
      ''Tel: +56912345678'',
      [],
      ''----------------------------------------'',
      ''SUBTOTAL: $39.200'',
      ''ENV'' @ [CHR 0xC3, CHR 0x8D] @ ''O: $2.000'',
      ''IVA: $3.000'',
      ''----------------------------------------'',
      ''TOTAL: $44.200'',
      ''----------------------------------------'',
      [],
      ''Estado: Pendiente'',
      ''M'' @ [CHR 0xC3, CHR 0xA9] @ ''todo de pago: No especificado'',
      [],
      ''========================================'']
   \<and> generarTicket p orden77 =
     ''========================================'' @ nl @
     (''        PIZZER'' @ [CHR 0xC3, CHR 0x8D] @ ''A LA FORNACE'') @ nl @
     ''        TICKET DE COCINA'' @ nl @
     ''========================================'' @ nl @
     nl @
     ''Orden #: 77'' @ nl @
     ''Fecha: Sin fecha'' @ nl @
     ''Hora: '' @ nl @
     nl @
     ''----------------------------------------'' @ nl @
     ''ITEMS DEL PEDIDO:'' @ nl @
     ''----------------------------------------'' @ nl @
     nl @
     ''2x Hawaiana (grande)'' @ nl @
     ''    Precio: $39.200'' @ nl @
     nl @
     ''----------------------------------------'' @ nl @
     (''DIRECCI'' @ [CHR 0xC3, CHR 0x93] @ ''N DE ENTREGA:'') @ nl @
     ''----------------------------------------'' @ nl @
     ''Calle 1'' @ nl @
     ''Tel: +56912345678'' @ nl @
     nl @
     ''----------------------------------------'' @ nl @
     ''SUBTOTAL: $39.200'' @ nl @
     (''ENV'' @ [CHR 0xC3, CHR 0x8D] @ ''O: $2.000'') @ nl @
     ''IVA: $3.000'' @ nl @
     ''----------------------------------------'' @ nl @
     ''TOTAL: $44.200'' @ nl @
     ''----------------------------------------'' @ nl @
     nl @
     ''Estado: Pendiente'' @ nl @
     (''M'' @ [CHR 0xC3, CHR 0xA9] @ ''todo de pago: No especificado'') @ nl @
     nl @
     ''========================================''
   \<and> ((take 12 (rev (lineasTicket p orden) ! 8) = ''DESCUENTO: -'') =
        (\<exists>d. descuento orden = Some d \<and> 0 < d))
   \<and> rev (lineasTicket p orden) ! 7 = ''----------------------------------------''
   \<and> rev (lineasTicket p orden) ! 6 =
        ''TOTAL: '' @ formatearPrecio p (Num (total_orden orden))
   \<and> suffix
     (nl @ ''IVA: '' @ formatearPrecio p (Num (impuestos orden)) @ nl @
      (case descuento orden of
         None \<Rightarrow> []
       | Some d \<Rightarrow> if 0 < d then ''DESCUENTO: -'' @ formatearPrecio p (Num d) @ nl else []) @
      ''----------------------------------------'' @ nl @
      ''TOTAL: '' @ formatearPrecio p (Num (total_orden orden)) @ nl @
      ''----------------------------------------'' @ nl @
      nl @
      ''Estado: '' @ aCadena (texto (obtenerInfoEstadoCocina (estado orden))) @ nl @
      (''M'' @ [CHR 0xC3, CHR 0xA9] @ ''todo de pago: '') @
        (if verdadero (metodo_pago orden) then aCadena (metodo_pago orden)
         else ''No especificado'') @ nl @
      nl @
      ''========================================'')
     (generarTicket p orden)"
proof -
  have "descuento orden = Some d \<and> 0 < d \<longrightarrow>
        rev (lineasTicket p orden) ! 8 = ''DESCUENTO: -'' @ formatearPrecio p (Num d)"
    by (simp add: ticket_totales(1))
  then show ?thesis
    by (intro conjI ticket_orden77 ticket_texto_orden77 ticket_descuento_sii ticket_totales(2)
        ticket_totales(3) ticket_cola)
qed

theorem ticket_escenario_witness:
  "descuento ordenCompleta = Some 500 \<and> (0::int) < 500
   \<and> rev (lineasTicket plataformaMuestra ordenCompleta) ! 8 = ''DESCUENTO: -$500''"
  using ticket_escenario [of ordenCompleta 500 plataformaMuestra, THEN conjunct1]
  by (simp add: ordenCompleta_def evaluar_precio)

theorem ticket_escenario_counterexample:
  "last (lineasTicket plataformaMuestra orden77) = ''========================================''
   \<and> last (lineasTicket plataformaMuestra orden77) \<noteq> ''TOTAL: $44.200''
   \<and> last (generarTicket plataformaMuestra orden77) = CHR ''=''
   \<and> ''Precio: $39.200'' \<notin> set (lineasTicket plataformaMuestra orden77)"
proof -
  have "''Precio: $39.200'' \<notin> set (lineasTicket plataformaMuestra orden77)"
    by (simp add: ticket_orden77)
  then show ?thesis
    by (simp add: ticket_ultima ticket_ultimo_caracter)
qed

text \<open>
  Claim C6. \<^verbatim>\<open>generarTicket\<close> has no failing path on an order of the record type: every
  property it reads is read from an object, and every \<^verbatim>\<open>forEach\<close> runs on an array, so the
  embedding is a total function and the claim is about the text it returns. That text
  is given in full for every order: the fixed lines, and between them the block of each
  item (its extras only when it has some, its note only when it has one), the special
  instructions, the estimated time and the discount, each of which is the empty text
  when the field is absent, so an absent field leaves no line, not even an empty one;
  the payment method reads \<^verbatim>\<open>No especificado\<close> when absent. With no items, instructions,
  estimated time, discount or payment method the ticket is the 31 fixed lines, the items
  heading followed at once by the delivery block. The number of lines is 31 plus three
  per item, one per extra and one per note, three for the instructions, two for the
  estimated time and one for the discount. An item with no extras, or with an empty list
  of them, and with no size and no note gives its line, its price and an empty line.
\<close>

theorem ticket_campos_opcionales:
  "generarTicket p orden =
     ''========================================'' @ nl @
     (''        PIZZER'' @ [CHR 0xC3, CHR 0x8D] @ ''A LA FORNACE'') @ nl @
     ''        TICKET DE COCINA'' @ nl @
     ''========================================'' @ nl @
     nl @
     ''Orden #: '' @ cadena (id_orden orden) @ nl @
     ''Fecha: '' @ fecha_fh (formatearFechaHora p (fecha orden)) @ nl @
     ''Hora: '' @ hora_fh (formatearFechaHora p (fecha orden)) @ nl @
     nl @
     ''----------------------------------------'' @ nl @
     ''ITEMS DEL PEDIDO:'' @ nl @
     ''----------------------------------------'' @ nl @
     nl @
     concat (map (\<lambda>it.
       cadena (cantidad it) @ ''x '' @ nombre it @
       (if verdadero (nombreTamanio it) then '' ('' @ aCadena (nombreTamanio it) @ '')'' else []) @ nl @
       (case extras it of
          None \<Rightarrow> []
        | Some es \<Rightarrow>
            concat (map (\<lambda>e. ''    + '' @ nombre_extra e @ '' ('' @
              formatearPrecio p (Num (precio e)) @ '')'' @ nl) es)) @
       (if verdadero (notas it) then ''    Notas: '' @ aCadena (notas it) @ nl else []) @
       ''    Precio: '' @ formatearPrecio p (Num (precio_unitario it * cantidad it)) @ nl @ nl)
       (itemsDe orden)) @
     ''----------------------------------------'' @ nl @
     (''DIRECCI'' @ [CHR 0xC3, CHR 0x93] @ ''N DE ENTREGA:'') @ nl @
     ''----------------------------------------'' @ nl @
     direccion orden @ nl @
     ''Tel: '' @ telefono orden @ nl @
     nl @
     (if verdadero (instrucciones_especiales orden)
      then ''INSTRUCCIONES ESPECIALES:'' @ nl @ aCadena (instrucciones_especiales orden) @ nl @ nl
      else []) @
     (case eta_minutos orden of
        None \<Rightarrow> []
      | Some eta \<Rightarrow> if eta \<noteq> 0 then ''ETA: '' @ cadena eta @ '' minutos'' @ nl @ nl else []) @
     ''----------------------------------------'' @ nl @
     ''SUBTOTAL: '' @ formatearPrecio p (Num (subtotal orden)) @ nl @
     (''ENV'' @ [CHR 0xC3, CHR 0x8D] @ ''O: '') @ formatearPrecio p (Num (costo_envio orden)) @ nl @
     ''IVA: '' @ formatearPrecio p (Num (impuestos orden)) @ nl @
     (case descuento orden of
        None \<Rightarrow> []
      | Some d \<Rightarrow> if 0 < d then ''DESCUENTO: -'' @ formatearPrecio p (Num d) @ nl else []) @
     ''----------------------------------------'' @ nl @
     ''TOTAL: '' @ formatearPrecio p (Num (total_orden orden)) @ nl @
     ''----------------------------------------'' @ nl @
     nl @
     ''Estado: '' @ aCadena (texto (obtenerInfoEstadoCocina (estado orden))) @ nl @
     (''M'' @ [CHR 0xC3, CHR 0xA9] @ ''todo de pago: '') @
       (if verdadero (metodo_pago orden) then aCadena (metodo_pago orden)
        else ''No especificado'') @ nl @
     nl @
     ''========================================''
   \<and> (itemsDe orden = [] \<and> instrucciones_especiales orden = None \<and>
        eta_minutos orden = None \<and> descuento orden = None \<and> metodo_pago orden = None \<longrightarrow>
        generarTicket p orden =
     ''========================================'' @ nl @
     (''        PIZZER'' @ [CHR 0xC3, CHR 0x8D] @ ''A LA FORNACE'') @ nl @
     ''        TICKET DE COCINA'' @ nl @
     ''========================================'' @ nl @
     nl @
     ''Orden #: '' @ cadena (id_orden orden) @ nl @
     ''Fecha: '' @ fecha_fh (formatearFechaHora p (fecha orden)) @ nl @
     ''Hora: '' @ hora_fh (formatearFechaHora p (fecha orden)) @ nl @
     nl @
     ''----------------------------------------'' @ nl @
     ''ITEMS DEL PEDIDO:'' @ nl @
     ''----------------------------------------'' @ nl @
     nl @
     ''----------------------------------------'' @ nl @
     (''DIRECCI'' @ [CHR 0xC3, CHR 0x93] @ ''N DE ENTREGA:'') @ nl @
     ''----------------------------------------'' @ nl @
     direccion orden @ nl @
     ''Tel: '' @ telefono orden @ nl @
     nl @
     ''----------------------------------------'' @ nl @
     ''SUBTOTAL: '' @ formatearPrecio p (Num (subtotal orden)) @ nl @
     (''ENV'' @ [CHR 0xC3, CHR 0x8D] @ ''O: '') @ formatearPrecio p (Num (costo_envio orden)) @ nl @
     ''IVA: '' @ formatearPrecio p (Num (impuestos orden)) @ nl @
     ''----------------------------------------'' @ nl @
     ''TOTAL: '' @ formatearPrecio p (Num (total_orden orden)) @ nl @
     ''----------------------------------------'' @ nl @
     nl @
     ''Estado: '' @ aCadena (texto (obtenerInfoEstadoCocina (estado orden))) @ nl @
     (''M'' @ [CHR 0xC3, CHR 0xA9] @ ''todo de pago: No especificado'') @ nl @
     nl @
     ''========================================'')
   \<and> length (lineasTicket p orden) =
     31 + (\<Sum>it\<leftarrow>itemsDe orden.
             3 + (case extras it of None \<Rightarrow> 0 | Some es \<Rightarrow> length es) +
             (if verdadero (notas it) then 1 else 0)) +
     (if verdadero (instrucciones_especiales orden) then 3 else 0) +
     (case eta_minutos orden of None \<Rightarrow> 0 | Some eta \<Rightarrow> if eta \<noteq> 0 then 2 else 0) +
     (case descuento orden of None \<Rightarrow> 0 | Some d \<Rightarrow> if d > 0 then 1 else 0)
   \<and> (itemsDe orden = [] \<and> instrucciones_especiales orden = None \<and>
        eta_minutos orden = None \<and> descuento orden = None \<and> metodo_pago orden = None \<longrightarrow>
        lineasTicket p orden =
          [''========================================'',
           ''        PIZZER'' @ [CHR 0xC3, CHR 0x8D] @ ''A LA FORNACE'',
           ''        TICKET DE COCINA'',
           ''========================================'',
           [],
           ''Orden #: '' @ cadena (id_orden orden),
           ''Fecha: '' @ fecha_fh (formatearFechaHora p (fecha orden)),
           ''Hora: '' @ hora_fh (formatearFechaHora p (fecha orden)),
           [],
           ''----------------------------------------'',
           ''ITEMS DEL PEDIDO:'',
           ''----------------------------------------'',
           [],
           ''----------------------------------------'',
           ''DIRECCI'' @ [CHR 0xC3, CHR 0x93] @ ''N DE ENTREGA:'',
           ''----------------------------------------'',
           direccion orden,
           ''Tel: '' @ telefono orden,
           [],
           ''----------------------------------------'',
           ''SUBTOTAL: '' @ formatearPrecio p (Num (subtotal orden)),
           ''ENV'' @ [CHR 0xC3, CHR 0x8D] @ ''O: '' @ formatearPrecio p (Num (costo_envio orden)),
           ''IVA: '' @ formatearPrecio p (Num (impuestos orden)),
           ''----------------------------------------'',
           ''TOTAL: '' @ formatearPrecio p (Num (total_orden orden)),
           ''----------------------------------------'',
           [],
           ''Estado: '' @ aCadena (texto (obtenerInfoEstadoCocina (estado orden))),
           ''M'' @ [CHR 0xC3, CHR 0xA9] @ ''todo de pago: No especificado'',
           [],
           ''========================================''])
   \<and> (metodo_pago orden = None \<longrightarrow>
        rev (lineasTicket p orden) ! 2 =
          ''M'' @ [CHR 0xC3, CHR 0xA9] @ ''todo de pago: No especificado'')
   \<and> ((extras it = None \<or> extras it = Some []) \<and> notas it = None \<and> tamanio it = None \<longrightarrow>
        lineasItem p it =
          [cadena (cantidad it) @ ''x '' @ nombre it,
           ''    Precio: '' @ formatearPrecio p (Num (precio_unitario it * cantidad it)),
           []])"
proof (intro conjI impI)
  show "generarTicket p orden =
     ''========================================'' @ nl @
     (''        PIZZER'' @ [CHR 0xC3, CHR 0x8D] @ ''A LA FORNACE'') @ nl @
     ''        TICKET DE COCINA'' @ nl @
     ''========================================'' @ nl @
     nl @
     ''Orden #: '' @ cadena (id_orden orden) @ nl @
     ''Fecha: '' @ fecha_fh (formatearFechaHora p (fecha orden)) @ nl @
     ''Hora: '' @ hora_fh (formatearFechaHora p (fecha orden)) @ nl @
     nl @
     ''----------------------------------------'' @ nl @
     ''ITEMS DEL PEDIDO:'' @ nl @
     ''----------------------------------------'' @ nl @
     nl @
     concat (map (\<lambda>it.
       cadena (cantidad it) @ ''x '' @ nombre it @
       (if verdadero (nombreTamanio it) then '' ('' @ aCadena (nombreTamanio it) @ '')'' else []) @ nl @
       (case extras it of
          None \<Rightarrow> []
        | Some es \<Rightarrow>
            concat (map (\<lambda>e. ''    + '' @ nombre_extra e @ '' ('' @
              formatearPrecio p (Num (precio e)) @ '')'' @ nl) es)) @
       (if verdadero (notas it) then ''    Notas: '' @ aCadena (notas it) @ nl else []) @
       ''    Precio: '' @ formatearPrecio p (Num (precio_unitario it * cantidad it)) @ nl @ nl)
       (itemsDe orden)) @
     ''----------------------------------------'' @ nl @
     (''DIRECCI'' @ [CHR 0xC3, CHR 0x93] @ ''N DE ENTREGA:'') @ nl @
     ''----------------------------------------'' @ nl @
     direccion orden @ nl @
     ''Tel: '' @ telefono orden @ nl @
     nl @
     (if verdadero (instrucciones_especiales orden)
      then ''INSTRUCCIONES ESPECIALES:'' @ nl @ aCadena (instrucciones_especiales orden) @ nl @ nl
      else []) @
     (case eta_minutos orden of
        None \<Rightarrow> []
      | Some eta \<Rightarrow> if eta \<noteq> 0 then ''ETA: '' @ cadena eta @ '' minutos'' @ nl @ nl else []) @
     ''----------------------------------------'' @ nl @
     ''SUBTOTAL: '' @ formatearPrecio p (Num (subtotal orden)) @ nl @
     (''ENV'' @ [CHR 0xC3, CHR 0x8D] @ ''O: '') @ formatearPrecio p (Num (costo_envio orden)) @ nl @
     ''IVA: '' @ formatearPrecio p (Num (impuestos orden)) @ nl @
     (case descuento orden of
        None \<Rightarrow> []
      | Some d \<Rightarrow> if 0 < d then ''DESCUENTO: -'' @ formatearPrecio p (Num d) @ nl else []) @
     ''----------------------------------------'' @ nl @
     ''TOTAL: '' @ formatearPrecio p (Num (total_orden orden)) @ nl @
     ''----------------------------------------'' @ nl @
     nl @
     ''Estado: '' @ aCadena (texto (obtenerInfoEstadoCocina (estado orden))) @ nl @
     (''M'' @ [CHR 0xC3, CHR 0xA9] @ ''todo de pago: '') @
       (if verdadero (metodo_pago orden) then aCadena (metodo_pago orden)
        else ''No especificado'') @ nl @
     nl @
     ''========================================''"
    by (rule ticket_texto_completo)
next
  assume "itemsDe orden = [] \<and> instrucciones_especiales orden = None \<and>
        eta_minutos orden = None \<and> descuento orden = None \<and> metodo_pago orden = None"
  then show "generarTicket p orden =
     ''========================================'' @ nl @
     (''        PIZZER'' @ [CHR 0xC3, CHR 0x8D] @ ''A LA FORNACE'') @ nl @
     ''        TICKET DE COCINA'' @ nl @
     ''========================================'' @ nl @
     nl @
     ''Orden #: '' @ cadena (id_orden orden) @ nl @
     ''Fecha: '' @ fecha_fh (formatearFechaHora p (fecha orden)) @ nl @
     ''Hora: '' @ hora_fh (formatearFechaHora p (fecha orden)) @ nl @
     nl @
     ''----------------------------------------'' @ nl @
     ''ITEMS DEL PEDIDO:'' @ nl @
     ''----------------------------------------'' @ nl @
     nl @
     ''----------------------------------------'' @ nl @
     (''DIRECCI'' @ [CHR 0xC3, CHR 0x93] @ ''N DE ENTREGA:'') @ nl @
     ''----------------------------------------'' @ nl @
     direccion orden @ nl @
     ''Tel: '' @ telefono orden @ nl @
     nl @
     ''----------------------------------------'' @ nl @
     ''SUBTOTAL: '' @ formatearPrecio p (Num (subtotal orden)) @ nl @
     (''ENV'' @ [CHR 0xC3, CHR 0x8D] @ ''O: '') @ formatearPrecio p (Num (costo_envio orden)) @ nl @
     ''IVA: '' @ formatearPrecio p (Num (impuestos orden)) @ nl @
     ''----------------------------------------'' @ nl @
     ''TOTAL: '' @ formatearPrecio p (Num (total_orden orden)) @ nl @
     ''----------------------------------------'' @ nl @
     nl @
     ''Estado: '' @ aCadena (texto (obtenerInfoEstadoCocina (estado orden))) @ nl @
     (''M'' @ [CHR 0xC3, CHR 0xA9] @ ''todo de pago: No especificado'') @ nl @
     nl @
     ''========================================''"
    by (intro ticket_texto_sin_opcionales) simp_all
next
  show "length (lineasTicket p orden) =
     31 + (\<Sum>it\<leftarrow>itemsDe orden.
             3 + (case extras it of None \<Rightarrow> 0 | Some es \<Rightarrow> length es) +
             (if verdadero (notas it) then 1 else 0)) +
     (if verdadero (instrucciones_especiales orden) then 3 else 0) +
     (case eta_minutos orden of None \<Rightarrow> 0 | Some eta \<Rightarrow> if eta \<noteq> 0 then 2 else 0) +
     (case descuento orden of None \<Rightarrow> 0 | Some d \<Rightarrow> if d > 0 then 1 else 0)"
    by (rule length_lineasTicket)
next
  assume "itemsDe orden = [] \<and> instrucciones_especiales orden = None \<and>
        eta_minutos orden = None \<and> descuento orden = None \<and> metodo_pago orden = None"
  then show "lineasTicket p orden =
          [''========================================'',
           ''        PIZZER'' @ [CHR 0xC3, CHR 0x8D] @ ''A LA FORNACE'',
           ''        TICKET DE COCINA'',
           ''========================================'',
           [],
           ''Orden #: '' @ cadena (id_orden orden),
           ''Fecha: '' @ fecha_fh (formatearFechaHora p (fecha orden)),
           ''Hora: '' @ hora_fh (formatearFechaHora p (fecha orden)),
           [],
           ''----------------------------------------'',
           ''ITEMS DEL PEDIDO:'',
           ''----------------------------------------'',
           [],
           ''----------------------------------------'',
           ''DIRECCI'' @ [CHR 0xC3, CHR 0x93] @ ''N DE ENTREGA:'',
           ''----------------------------------------'',
           direccion orden,
           ''Tel: '' @ telefono orden,
           [],
           ''----------------------------------------'',
           ''SUBTOTAL: '' @ formatearPrecio p (Num (subtotal orden)),
           ''ENV'' @ [CHR 0xC3, CHR 0x8D] @ ''O: '' @ formatearPrecio p (Num (costo_envio orden)),
           ''IVA: '' @ formatearPrecio p (Num (impuestos orden)),
           ''----------------------------------------'',
           ''TOTAL: '' @ formatearPrecio p (Num (total_orden orden)),
           ''----------------------------------------'',
           [],
           ''Estado: '' @ aCadena (texto (obtenerInfoEstadoCocina (estado orden))),
           ''M'' @ [CHR 0xC3, CHR 0xA9] @ ''todo de pago: No especificado'',
           [],
           ''========================================'']"
    by (intro ticket_sin_opcionales) simp_all
next
  assume "metodo_pago orden = None"
  then show "rev (lineasTicket p orden) ! 2 =
          ''M'' @ [CHR 0xC3, CHR 0xA9] @ ''todo de pago: No especificado''"
    by (rule ticket_metodo_pago)
next
  assume "(extras it = None \<or> extras it = Some []) \<and> notas it = None \<and> tamanio it = None"
  then show "lineasItem p it =
          [cadena (cantidad it) @ ''x '' @ nombre it,
           ''    Precio: '' @ formatearPrecio p (Num (precio_unitario it * cantidad it)),
           []]"
    by (intro item_sin_opcionales) simp_all
qed

theorem ticket_campos_opcionales_witness:
  "itemsDe (orden77\<lparr>items_json := None, descuento := None\<rparr>) = []
   \<and> instrucciones_especiales (orden77\<lparr>items_json := None, descuento := None\<rparr>) = None
   \<and> eta_minutos (orden77\<lparr>items_json := None, descuento := None\<rparr>) = None
   \<and> descuento (orden77\<lparr>items_json := None, descuento := None\<rparr>) = None
   \<and> metodo_pago (orden77\<lparr>items_json := None, descuento := None\<rparr>) = None
   \<and> lineasTicket plataformaMuestra (orden77\<lparr>items_json := None, descuento := None\<rparr>) =
       [''========================================'',
        ''        PIZZER'' @ [CHR 0xC3, CHR 0x8D] @ ''A LA FORNACE'',
        ''        TICKET DE COCINA'',
        ''========================================'',
        [],
        ''Orden #: 77'',
        ''Fecha: Sin fecha'',
        ''Hora: '',
        [],
        ''----------------------------------------'',
        ''ITEMS DEL PEDIDO:'',
        ''----------------------------------------'',
        [],
        ''----------------------------------------'',
        ''DIRECCI'' @ [CHR 0xC3, CHR 0x93] @ ''N DE ENTREGA:'',
        ''----------------------------------------'',
        ''Calle 1'',
        ''Tel: +56912345678'',
        [],
        ''----------------------------------------'',
        ''SUBTOTAL: $39.200'',
        ''ENV'' @ [CHR 0xC3, CHR 0x8D] @ ''O: $2.000'',
        ''IVA: $3.000'',
        ''----------------------------------------'',
        ''TOTAL: $44.200'',
        ''----------------------------------------'',
        [],
        ''Estado: Pendiente'',
        ''M'' @ [CHR 0xC3, CHR 0xA9] @ ''todo de pago: No especificado'',
        [],
        ''========================================'']
   \<and> generarTicket plataformaMuestra (orden77\<lparr>items_json := None, descuento := None\<rparr>) =
       ''========================================'' @ nl @
       (''        PIZZER'' @ [CHR 0xC3, CHR 0x8D] @ ''A LA FORNACE'') @ nl @
       ''        TICKET DE COCINA'' @ nl @
       ''========================================'' @ nl @
       nl @
       ''Orden #: 77'' @ nl @
       ''Fecha: Sin fecha'' @ nl @
       ''Hora: '' @ nl @
       nl @
       ''----------------------------------------'' @ nl @
       ''ITEMS DEL PEDIDO:'' @ nl @
       ''----------------------------------------'' @ nl @
       nl @
       ''----------------------------------------'' @ nl @
       (''DIRECCI'' @ [CHR 0xC3, CHR 0x93] @ ''N DE ENTREGA:'') @ nl @
       ''----------------------------------------'' @ nl @
       ''Calle 1'' @ nl @
       ''Tel: +56912345678'' @ nl @
       nl @
       ''----------------------------------------'' @ nl @
       ''SUBTOTAL: $39.200'' @ nl @
       (''ENV'' @ [CHR 0xC3, CHR 0x8D] @ ''O: $2.000'') @ nl @
       ''IVA: $3.000'' @ nl @
       ''----------------------------------------'' @ nl @
       ''TOTAL: $44.200'' @ nl @
       ''----------------------------------------'' @ nl @
       nl @
       ''Estado: Pendiente'' @ nl @
       (''M'' @ [CHR 0xC3, CHR 0xA9] @ ''todo de pago: No especificado'') @ nl @
       nl @
       ''========================================''
   \<and> lineasItem plataformaMuestra
         \<lparr>cantidad = 1, nombre = ''Pepperoni'', tamanio = None, extras = Some [],
          notas = None, precio_unitario = 19600\<rparr> =
       [''1x Pepperoni'', ''    Precio: $19.600'', []]"
  using ticket_campos_opcionales [of plataformaMuestra
      "orden77\<lparr>items_json := None, descuento := None\<rparr>"
      "\<lparr>cantidad = 1, nombre = ''Pepperoni'', tamanio = None, extras = Some [],
        notas = None, precio_unitario = 19600\<rparr>"]
  by (simp add: orden77_def evaluar_ticket evaluar_precio)

section \<open>Status descriptors and the actions of a card\<close>

lemmas evaluar_estado =
  obtenerInfoEstadoCocina_def estados_def heredadas_def sinPropiedades_def
  verdaderoBool_def aCadena_def

lemma estado_desconocido:
  assumes "e \<notin> fst ` set estados" and "e \<notin> set heredadas"
  shows "obtenerInfoEstadoCocina e =
     \<lparr>texto = Some e, clase = Some ''bg-secondary'', colorBorder = Some ''secondary'',
      mostrarBotonEstado = Some False, botonTexto = None, botonClase = None,
      siguienteEstado = None\<rparr>"
proof -
  have "map_of estados e = None" using assms(1) by (simp add: map_of_eq_None_iff)
  then show ?thesis using assms(2) by (simp add: obtenerInfoEstadoCocina_def)
qed

text \<open>
  Claim C5, at a status the fallback misses. For a status that is neither one of the
  seven keys of the table nor a name found in \<^verbatim>\<open>Object.prototype\<close> the fallback
  descriptor is returned, with the status as its label (lemma \<open>estado_desconocido\<close>). The
  status \<^verbatim>\<open>constructor\<close> is not one of the seven, yet \<^verbatim>\<open>estados[estado]\<close> finds the inherited
  member, which is truthy, and that is returned instead of the fallback: it has no label
  and no flag, and the ticket prints \<^verbatim>\<open>Estado: undefined\<close>.
\<close>

theorem estado_heredado:
  "obtenerInfoEstadoCocina ''constructor'' = sinPropiedades
   \<and> texto (obtenerInfoEstadoCocina ''constructor'') = None
   \<and> mostrarBotonEstado (obtenerInfoEstadoCocina ''constructor'') = None
   \<and> rev (lineasTicket p (orden\<lparr>estado := ''constructor''\<rparr>)) ! 3 = ''Estado: undefined''"
  by (simp add: evaluar_estado lineasTicket_def Let_def)

lemma accion_descriptor:
  "verdaderoBool (mostrarBotonEstado (obtenerInfoEstadoCocina e)) =
   (e \<in> {''pendiente'', ''confirmado'', ''en_preparacion''})"
  by (simp add: evaluar_estado)

lemma botones_en_camino:
  "estado orden = ''en_camino'' \<Longrightarrow>
   botonesEstado orden =
     ''<button class=\"btn btn-success btn-sm w-100 mt-2\" onclick=\"cambiarEstadoOrden('' @
     cadena (id_orden orden) @ '', '' @ comilla @ ''entregado'' @ comilla @ '')\">'' @
     ''Marcar Entregado'' @ ''</button>''"
  by (simp add: botonesEstado_def Let_def evaluar_estado)

lemma botones_pendiente:
  "estado orden = ''pendiente'' \<Longrightarrow>
   botonesEstado orden =
     ''<button class=\"btn btn-primary btn-sm w-100\" onclick=\"cambiarEstadoOrden('' @
     cadena (id_orden orden) @ '', '' @ comilla @ ''confirmado'' @ comilla @ '')\">'' @
     ''Confirmar Pedido'' @ ''</button>''"
  by (simp add: botonesEstado_def Let_def evaluar_estado)

lemma botones_confirmado:
  "estado orden = ''confirmado'' \<Longrightarrow>
   botonesEstado orden =
     ''<button class=\"btn btn-warning btn-sm w-100\" onclick=\"cambiarEstadoOrden('' @
     cadena (id_orden orden) @ '', '' @ comilla @ ''en_preparacion'' @ comilla @ '')\">'' @
     ''Iniciar Preparaci'' @ [CHR 0xC3, CHR 0xB3] @ ''n'' @ ''</button>''"
  by (simp add: botonesEstado_def Let_def evaluar_estado)

lemma botones_en_preparacion:
  "estado orden = ''en_preparacion'' \<Longrightarrow>
   botonesEstado orden =
     ''<button class=\"btn btn-info btn-sm w-100\" onclick=\"cambiarEstadoOrden('' @
     cadena (id_orden orden) @ '', '' @ comilla @ ''en_camino'' @ comilla @ '')\">'' @
     ''Listo para Env'' @ [CHR 0xC3, CHR 0xAD] @ ''o'' @ ''</button>''"
  by (simp add: botonesEstado_def Let_def evaluar_estado)

lemma botones_ninguno:
  "estado orden \<notin> {''pendiente'', ''confirmado'', ''en_preparacion'', ''en_camino''} \<Longrightarrow>
   botonesEstado orden = []"
  using accion_descriptor [of "estado orden"] by (simp add: botonesEstado_def Let_def)

lemma tarjeta_botones:
  "suffix (botonesEstado orden @ ''</div></div></div></div>'') (tarjetaOrden p orden)"
  unfolding tarjetaOrden_def Let_def
  by (rule suffix_order.refl | rule suffix_appendI)+

text \<open>
  Claim C1, as the code has it. The card of an order on its way shows one button, the
  one written out for that status, which marks the order delivered; its descriptor asks
  for no button and names no next status. The descriptor asks for a button exactly for
  the pending, confirmed and in-preparation statuses, each with its successor, so no
  status has two buttons; a delivered order, like every status outside these four, has
  none. These buttons are the end of the card, before its closing tags.
\<close>

theorem botones_por_estado:
  "(estado orden = ''en_camino'' \<longrightarrow>
      botonesEstado orden =
        ''<button class=\"btn btn-success btn-sm w-100 mt-2\" onclick=\"cambiarEstadoOrden('' @
        cadena (id_orden orden) @ '', '' @ comilla @ ''entregado'' @ comilla @ '')\">'' @
        ''Marcar Entregado'' @ ''</button>'')
   \<and> (estado orden = ''entregado'' \<longrightarrow> botonesEstado orden = [])
   \<and> (estado orden \<notin> {''pendiente'', ''confirmado'', ''en_preparacion'', ''en_camino''} \<longrightarrow>
        botonesEstado orden = [])
   \<and> suffix (botonesEstado orden @ ''</div></div></div></div>'') (tarjetaOrden p orden)
   \<and> verdaderoBool (mostrarBotonEstado (obtenerInfoEstadoCocina e)) =
        (e \<in> {''pendiente'', ''confirmado'', ''en_preparacion''})
   \<and> siguienteEstado (obtenerInfoEstadoCocina ''en_camino'') = None
   \<and> (estado orden = ''pendiente'' \<longrightarrow>
        botonesEstado orden =
          ''<button class=\"btn btn-primary btn-sm w-100\" onclick=\"cambiarEstadoOrden('' @
          cadena (id_orden orden) @ '', '' @ comilla @ ''confirmado'' @ comilla @ '')\">'' @
          ''Confirmar Pedido'' @ ''</button>'')
   \<and> (estado orden = ''confirmado'' \<longrightarrow>
        botonesEstado orden =
          ''<button class=\"btn btn-warning btn-sm w-100\" onclick=\"cambiarEstadoOrden('' @
          cadena (id_orden orden) @ '', '' @ comilla @ ''en_preparacion'' @ comilla @ '')\">'' @
          ''Iniciar Preparaci'' @ [CHR 0xC3, CHR 0xB3] @ ''n'' @ ''</button>'')
   \<and> (estado orden = ''en_preparacion'' \<longrightarrow>
        botonesEstado orden =
          ''<button class=\"btn btn-info btn-sm w-100\" onclick=\"cambiarEstadoOrden('' @
          cadena (id_orden orden) @ '', '' @ comilla @ ''en_camino'' @ comilla @ '')\">'' @
          ''Listo para Env'' @ [CHR 0xC3, CHR 0xAD] @ ''o'' @ ''</button>'')"
proof -
  have a: "estado orden = ''entregado'' \<longrightarrow> botonesEstado orden = []"
    by (simp add: botones_ninguno)
  have b: "siguienteEstado (obtenerInfoEstadoCocina ''en_camino'') = None"
    by (simp add: evaluar_estado)
  show ?thesis
    by (intro conjI impI botones_en_camino botones_ninguno accion_descriptor botones_pendiente
        botones_confirmado botones_en_preparacion tarjeta_botones a b)
qed

theorem botones_por_estado_witness:
  "estado (ordenMuestra 5 ''en_camino'' ''2024-05-01T12:00:00Z'') = ''en_camino''
   \<and> botonesEstado (ordenMuestra 5 ''en_camino'' ''2024-05-01T12:00:00Z'') =
       ''<button class=\"btn btn-success btn-sm w-100 mt-2\" onclick=\"cambiarEstadoOrden(5, '' @
       comilla @ ''entregado'' @ comilla @ '')\">Marcar Entregado</button>''
   \<and> estado (ordenMuestra 6 ''entregado'' ''2024-05-01T12:00:00Z'') = ''entregado''
   \<and> estado (ordenMuestra 6 ''entregado'' ''2024-05-01T12:00:00Z'')
       \<notin> {''pendiente'', ''confirmado'', ''en_preparacion'', ''en_camino''}
   \<and> botonesEstado (ordenMuestra 6 ''entregado'' ''2024-05-01T12:00:00Z'') = []
   \<and> estado (ordenMuestra 7 ''pendiente'' ''2024-05-01T12:00:00Z'') = ''pendiente''
   \<and> botonesEstado (ordenMuestra 7 ''pendiente'' ''2024-05-01T12:00:00Z'') =
       ''<button class=\"btn btn-primary btn-sm w-100\" onclick=\"cambiarEstadoOrden(7, '' @
       comilla @ ''confirmado'' @ comilla @ '')\">Confirmar Pedido</button>''
   \<and> estado (ordenMuestra 8 ''confirmado'' ''2024-05-01T12:00:00Z'') = ''confirmado''
   \<and> botonesEstado (ordenMuestra 8 ''confirmado'' ''2024-05-01T12:00:00Z'') =
       ''<button class=\"btn btn-warning btn-sm w-100\" onclick=\"cambiarEstadoOrden(8, '' @
       comilla @ ''en_preparacion'' @ comilla @ '')\">Iniciar Preparaci'' @
       [CHR 0xC3, CHR 0xB3] @ ''n</button>''
   \<and> estado (ordenMuestra 9 ''en_preparacion'' ''2024-05-01T12:00:00Z'') = ''en_preparacion''
   \<and> botonesEstado (ordenMuestra 9 ''en_preparacion'' ''2024-05-01T12:00:00Z'') =
       ''<button class=\"btn btn-info btn-sm w-100\" onclick=\"cambiarEstadoOrden(9, '' @
       comilla @ ''en_camino'' @ comilla @ '')\">Listo para Env'' @
       [CHR 0xC3, CHR 0xAD] @ ''o</button>''"
  using botones_por_estado [of "ordenMuestra 5 ''en_camino'' ''2024-05-01T12:00:00Z''" plataformaMuestra "''en_camino''"]
    botones_por_estado [of "ordenMuestra 6 ''entregado'' ''2024-05-01T12:00:00Z''" plataformaMuestra "''entregado''"]
    botones_por_estado [of "ordenMuestra 7 ''pendiente'' ''2024-05-01T12:00:00Z''" plataformaMuestra "''pendiente''"]
    botones_por_estado [of "ordenMuestra 8 ''confirmado'' ''2024-05-01T12:00:00Z''" plataformaMuestra "''confirmado''"]
    botones_por_estado [of "ordenMuestra 9 ''en_preparacion'' ''2024-05-01T12:00:00Z''" plataformaMuestra "''en_preparacion''"]
  by (simp add: ordenMuestra_def cadena_def digitos.simps cifras_def)

theorem botones_en_camino_counterexample:
  "\<not> (verdaderoBool (mostrarBotonEstado (obtenerInfoEstadoCocina ''en_camino'')))
   \<and> botonesEstado (ordenMuestra 5 ''en_camino'' ''2024-05-01T12:00:00Z'') =
       ''<button class=\"btn btn-success btn-sm w-100 mt-2\" onclick=\"cambiarEstadoOrden(5, '' @
       comilla @ ''entregado'' @ comilla @ '')\">Marcar Entregado</button>''"
  by (simp add: botonesEstado_def Let_def evaluar_estado ordenMuestra_def cadena_def
      digitos.simps cifras_def)

section \<open>The filtered and sorted view\<close>

lemma mset_filtrarPorEstado:
  "mset (filtrarPorEstado f xs) =
     (if f = ''todos''
      then filter_mset (\<lambda>x. estado x \<in> {''pendiente'', ''confirmado'', ''en_preparacion'', ''en_camino''}) (mset xs)
      else filter_mset (\<lambda>x. estado x = f) (mset xs))"
  by (simp add: filtrarPorEstado_def)

lemma todos_sin_terminados:
  assumes "x \<in> set (filtrarPorEstado ''todos'' xs)"
  shows "estado x \<notin> {''entregado'', ''anulado'', ''cancelado''}"
  using assms by (auto simp: filtrarPorEstado_def)

lemma html_renderizar:
  "ordenesFiltradas p st \<noteq> [] \<Longrightarrow>
   contenedor_html (renderizarOrdenes p st) = concat (map (tarjetaOrden p) (ordenesFiltradas p st))"
  by (simp add: renderizarOrdenes_def Let_def)

lemmas evaluar_vista =
  ordenesFiltradas_def filtrarPorEstado_def ordenar_def restaFechas_def vaDespues_def
  panelMuestra_def plataformaMuestra_def fechasMuestra_def ordenMuestra_def

lemma vista_muestra_lista:
  "ordenesFiltradas plataformaMuestra panelMuestra =
     [ordenMuestra 3 ''en_camino'' ''2024-05-02T09:15:00Z'',
      ordenMuestra 6 ''confirmado'' ''2024-05-01T13:30:00Z'',
      ordenMuestra 1 ''pendiente'' ''2024-05-01T12:00:00Z'',
      ordenMuestra 4 ''pendiente'' ''2024-05-01T12:00:00Z'']"
  by (simp add: evaluar_vista)

lemma vista_muestra:
  "map id_orden (ordenesFiltradas plataformaMuestra panelMuestra) = [3, 6, 1, 4]"
  by (simp add: vista_muestra_lista ordenMuestra_def)

lemma renderizar_vacia:
  assumes "ordenesFiltradas p st = []"
  shows "renderizarOrdenes p st = st\<lparr>contenedor_display := ''none'', vacias_display := ''block''\<rparr>"
  using assms by (simp add: renderizarOrdenes_def Let_def)

lemma renderizar_llena:
  assumes "ordenesFiltradas p st \<noteq> []"
  shows "renderizarOrdenes p st =
     st\<lparr>contenedor_display := ''block'', vacias_display := ''none'',
        contenedor_html := concat (map (tarjetaOrden p) (ordenesFiltradas p st))\<rparr>"
  using assms by (simp add: renderizarOrdenes_def Let_def)

text \<open>
  Claim C2. The orders \<^verbatim>\<open>renderizarOrdenes\<close> shows are, as a multiset, the fetched orders
  that pass the filter: under \<^verbatim>\<open>todos\<close> those whose status is pending, confirmed, in
  preparation or on its way, and under any other filter those whose status equals the
  filter. Under \<^verbatim>\<open>todos\<close> no order shown is delivered, voided or cancelled. When there is
  an order to show, the container is made visible and holds the cards of exactly these
  orders, and the notice of the empty list is hidden. When no order passes the filter the
  container is hidden, so that whatever it held is not shown, and the notice is shown;
  nothing else of the page changes.
\<close>

theorem vista_filtrada:
  "mset (ordenesFiltradas p st) =
     (if filtroActual st = ''todos''
      then filter_mset (\<lambda>x. estado x \<in> {''pendiente'', ''confirmado'', ''en_preparacion'', ''en_camino''})
             (mset (ordenesActuales st))
      else filter_mset (\<lambda>x. estado x = filtroActual st) (mset (ordenesActuales st)))
   \<and> (filtroActual st = ''todos'' \<longrightarrow>
        (\<forall>x \<in> set (ordenesFiltradas p st). estado x \<notin> {''entregado'', ''anulado'', ''cancelado''}))
   \<and> (ordenesFiltradas p st \<noteq> [] \<longrightarrow>
        contenedor_html (renderizarOrdenes p st) =
          concat (map (tarjetaOrden p) (ordenesFiltradas p st)))
   \<and> (ordenesFiltradas p st \<noteq> [] \<longrightarrow>
        renderizarOrdenes p st =
          st\<lparr>contenedor_display := ''block'', vacias_display := ''none'',
             contenedor_html := concat (map (tarjetaOrden p) (ordenesFiltradas p st))\<rparr>)
   \<and> (ordenesFiltradas p st = [] \<longrightarrow>
        renderizarOrdenes p st =
          st\<lparr>contenedor_display := ''none'', vacias_display := ''block''\<rparr>)
   \<and> contenedor_display (renderizarOrdenes p st) =
        (if ordenesFiltradas p st = [] then ''none'' else ''block'')
   \<and> vacias_display (renderizarOrdenes p st) =
        (if ordenesFiltradas p st = [] then ''block'' else ''none'')"
proof (intro conjI impI ballI)
  show "mset (ordenesFiltradas p st) =
     (if filtroActual st = ''todos''
      then filter_mset (\<lambda>x. estado x \<in> {''pendiente'', ''confirmado'', ''en_preparacion'', ''en_camino''})
             (mset (ordenesActuales st))
      else filter_mset (\<lambda>x. estado x = filtroActual st) (mset (ordenesActuales st)))"
    unfolding ordenesFiltradas_def mset_ordenar by (rule mset_filtrarPorEstado)
next
  fix x
  assume "filtroActual st = ''todos''" and "x \<in> set (ordenesFiltradas p st)"
  then have "x \<in> set (filtrarPorEstado ''todos'' (ordenesActuales st))"
    by (simp add: ordenesFiltradas_def set_ordenar)
  then show "estado x \<notin> {''entregado'', ''anulado'', ''cancelado''}"
    by (rule todos_sin_terminados)
next
  assume "ordenesFiltradas p st \<noteq> []"
  then show "contenedor_html (renderizarOrdenes p st) =
          concat (map (tarjetaOrden p) (ordenesFiltradas p st))"
    by (rule html_renderizar)
next
  assume "ordenesFiltradas p st \<noteq> []"
  then show "renderizarOrdenes p st =
          st\<lparr>contenedor_display := ''block'', vacias_display := ''none'',
             contenedor_html := concat (map (tarjetaOrden p) (ordenesFiltradas p st))\<rparr>"
    by (rule renderizar_llena)
next
  assume "ordenesFiltradas p st = []"
  then show "renderizarOrdenes p st =
          st\<lparr>contenedor_display := ''none'', vacias_display := ''block''\<rparr>"
    by (rule renderizar_vacia)
next
  show "contenedor_display (renderizarOrdenes p st) =
        (if ordenesFiltradas p st = [] then ''none'' else ''block'')"
    by (simp add: renderizarOrdenes_def Let_def)
next
  show "vacias_display (renderizarOrdenes p st) =
        (if ordenesFiltradas p st = [] then ''block'' else ''none'')"
    by (simp add: renderizarOrdenes_def Let_def)
qed

lemma vista_muestra_vacia:
  "ordenesFiltradas plataformaMuestra (panelMuestra\<lparr>filtroActual := ''cancelado''\<rparr>) = []"
  by (simp add: evaluar_vista)

theorem vista_filtrada_witness:
  "filtroActual panelMuestra = ''todos''
   \<and> map id_orden (ordenesFiltradas plataformaMuestra panelMuestra) = [3, 6, 1, 4]
   \<and> map estado (ordenesFiltradas plataformaMuestra panelMuestra) =
       [''en_camino'', ''confirmado'', ''pendiente'', ''pendiente'']
   \<and> ordenesFiltradas plataformaMuestra panelMuestra \<noteq> []
   \<and> contenedor_html (renderizarOrdenes plataformaMuestra panelMuestra) =
        concat (map (tarjetaOrden plataformaMuestra)
          (ordenesFiltradas plataformaMuestra panelMuestra))
   \<and> contenedor_display (renderizarOrdenes plataformaMuestra panelMuestra) = ''block''
   \<and> vacias_display (renderizarOrdenes plataformaMuestra panelMuestra) = ''none''
   \<and> ordenesFiltradas plataformaMuestra (panelMuestra\<lparr>filtroActual := ''cancelado''\<rparr>) = []
   \<and> renderizarOrdenes plataformaMuestra (panelMuestra\<lparr>filtroActual := ''cancelado''\<rparr>) =
        panelMuestra\<lparr>filtroActual := ''cancelado'', contenedor_display := ''none'',
          vacias_display := ''block''\<rparr>"
proof -
  have a: "filtroActual panelMuestra = ''todos''"
    by (simp add: panelMuestra_def)
  have b: "map id_orden (ordenesFiltradas plataformaMuestra panelMuestra) = [3, 6, 1, 4]"
    by (rule vista_muestra)
  then have c: "ordenesFiltradas plataformaMuestra panelMuestra \<noteq> []"
    by auto
  have d: "map estado (ordenesFiltradas plataformaMuestra panelMuestra) =
       [''en_camino'', ''confirmado'', ''pendiente'', ''pendiente'']"
    by (simp add: vista_muestra_lista ordenMuestra_def)
  show ?thesis
    using vista_filtrada [of plataformaMuestra panelMuestra]
      vista_filtrada [of plataformaMuestra "panelMuestra\<lparr>filtroActual := ''cancelado''\<rparr>"]
      a b c d vista_muestra_vacia
    by simp
qed

lemma sin_None: "None \<notin> set (map f xs) \<Longrightarrow> \<forall>x \<in> set xs. f x \<noteq> None"
  by force

lemma insertar_ordenado:
  assumes "sorted_wrt (\<lambda>a b. \<exists>ta tb. milisegundos p (fecha a) = Some ta \<and>
             milisegundos p (fecha b) = Some tb \<and> tb \<le> ta) xs"
    and "milisegundos p (fecha x) \<noteq> None"
    and "\<forall>y \<in> set xs. milisegundos p (fecha y) \<noteq> None"
  shows "sorted_wrt (\<lambda>a b. \<exists>ta tb. milisegundos p (fecha a) = Some ta \<and>
             milisegundos p (fecha b) = Some tb \<and> tb \<le> ta) (insertar (restaFechas p) x xs)"
  using assms
proof (induction xs)
  case Nil
  then show ?case by simp
next
  case (Cons y ys)
  obtain tx where tx: "milisegundos p (fecha x) = Some tx" using Cons.prems(2) by auto
  obtain ty where ty: "milisegundos p (fecha y) = Some ty" using Cons.prems(3) by auto
  show ?case
  proof (cases "vaDespues (restaFechas p x y)")
    case True
    then have lt: "tx < ty" by (simp add: restaFechas_def vaDespues_def tx ty)
    have "sorted_wrt (\<lambda>a b. \<exists>ta tb. milisegundos p (fecha a) = Some ta \<and>
             milisegundos p (fecha b) = Some tb \<and> tb \<le> ta) (insertar (restaFechas p) x ys)"
      using Cons by simp
    moreover have "\<forall>z \<in> set (insertar (restaFechas p) x ys).
        \<exists>ta tb. milisegundos p (fecha y) = Some ta \<and> milisegundos p (fecha z) = Some tb \<and> tb \<le> ta"
      using Cons.prems(1) lt tx ty by (auto simp: set_insertar)
    ultimately show ?thesis using True by simp
  next
    case False
    then have le: "ty \<le> tx" by (simp add: restaFechas_def vaDespues_def tx ty)
    have "\<forall>z \<in> set ys.
        \<exists>ta tb. milisegundos p (fecha x) = Some ta \<and> milisegundos p (fecha z) = Some tb \<and> tb \<le> ta"
    proof
      fix z assume "z \<in> set ys"
      then have "\<exists>ta tb. milisegundos p (fecha y) = Some ta \<and>
          milisegundos p (fecha z) = Some tb \<and> tb \<le> ta"
        using Cons.prems(1) by simp
      then show "\<exists>ta tb. milisegundos p (fecha x) = Some ta \<and>
          milisegundos p (fecha z) = Some tb \<and> tb \<le> ta"
        using le tx ty by auto
    qed
    then show ?thesis using False Cons.prems(1) le tx ty by simp
  qed
qed

lemma ordenar_ordenado:
  assumes "\<forall>y \<in> set xs. milisegundos p (fecha y) \<noteq> None"
  shows "sorted_wrt (\<lambda>a b. \<exists>ta tb. milisegundos p (fecha a) = Some ta \<and>
             milisegundos p (fecha b) = Some tb \<and> tb \<le> ta) (ordenar (restaFechas p) xs)"
  using assms
proof (induction xs)
  case Nil
  show ?case by (simp add: ordenar_def)
next
  case (Cons x xs)
  have a: "sorted_wrt (\<lambda>a b. \<exists>ta tb. milisegundos p (fecha a) = Some ta \<and>
             milisegundos p (fecha b) = Some tb \<and> tb \<le> ta) (ordenar (restaFechas p) xs)"
    using Cons by simp
  have b: "milisegundos p (fecha x) \<noteq> None"
    using Cons.prems by simp
  have c: "\<forall>y \<in> set (ordenar (restaFechas p) xs). milisegundos p (fecha y) \<noteq> None"
    using Cons.prems by (simp add: set_ordenar)
  show ?case
    unfolding ordenar_Cons by (rule insertar_ordenado [OF a b c])
qed

lemma ordenar_estable:
  "filter (\<lambda>x. milisegundos p (fecha x) = Some t) (ordenar (restaFechas p) xs) =
   filter (\<lambda>x. milisegundos p (fecha x) = Some t) xs"
  by (rule filter_ordenar) (simp add: restaFechas_def vaDespues_def)

lemma set_filtrarPorEstado: "set (filtrarPorEstado f xs) \<subseteq> set xs"
  by (auto simp: filtrarPorEstado_def)

text \<open>
  Claim C8. When every order of the view has a valid date, the orders shown are in
  descending order of date, newest first; orders the filter drops may have any date or
  none. The sort is stable in every case: for each instant, the orders of that instant
  appear in the view in the order in which they were fetched. The view holds the
  filtered orders and no others, and the cards are written in the order of the view.
\<close>

theorem vista_ordenada:
  "((\<forall>x \<in> set (ordenesFiltradas p st). milisegundos p (fecha x) \<noteq> None) \<longrightarrow>
      sorted_wrt (\<lambda>a b. \<exists>ta tb. milisegundos p (fecha a) = Some ta \<and>
             milisegundos p (fecha b) = Some tb \<and> tb \<le> ta) (ordenesFiltradas p st))
   \<and> (\<forall>t. filter (\<lambda>x. milisegundos p (fecha x) = Some t) (ordenesFiltradas p st) =
            filter (\<lambda>x. milisegundos p (fecha x) = Some t)
              (filtrarPorEstado (filtroActual st) (ordenesActuales st)))
   \<and> mset (ordenesFiltradas p st) = mset (filtrarPorEstado (filtroActual st) (ordenesActuales st))
   \<and> (ordenesFiltradas p st \<noteq> [] \<longrightarrow>
        contenedor_html (renderizarOrdenes p st) =
          concat (map (tarjetaOrden p) (ordenesFiltradas p st)))"
proof (intro conjI impI)
  assume "\<forall>x \<in> set (ordenesFiltradas p st). milisegundos p (fecha x) \<noteq> None"
  then have "\<forall>x \<in> set (filtrarPorEstado (filtroActual st) (ordenesActuales st)).
          milisegundos p (fecha x) \<noteq> None"
    by (simp add: ordenesFiltradas_def set_ordenar)
  then show "sorted_wrt (\<lambda>a b. \<exists>ta tb. milisegundos p (fecha a) = Some ta \<and>
             milisegundos p (fecha b) = Some tb \<and> tb \<le> ta) (ordenesFiltradas p st)"
    unfolding ordenesFiltradas_def by (rule ordenar_ordenado)
next
  show "\<forall>t. filter (\<lambda>x. milisegundos p (fecha x) = Some t) (ordenesFiltradas p st) =
            filter (\<lambda>x. milisegundos p (fecha x) = Some t)
              (filtrarPorEstado (filtroActual st) (ordenesActuales st))"
    by (simp add: ordenesFiltradas_def ordenar_estable)
next
  show "mset (ordenesFiltradas p st) = mset (filtrarPorEstado (filtroActual st) (ordenesActuales st))"
    by (simp add: ordenesFiltradas_def mset_ordenar)
next
  assume "ordenesFiltradas p st \<noteq> []"
  then show "contenedor_html (renderizarOrdenes p st) =
          concat (map (tarjetaOrden p) (ordenesFiltradas p st))"
    by (rule html_renderizar)
qed

theorem vista_ordenada_witness:
  "map (\<lambda>x. milisegundos plataformaMuestra (fecha x))
     (ordenesFiltradas plataformaMuestra
        (panelMuestra\<lparr>ordenesActuales := orden77\<lparr>estado := ''entregado''\<rparr> # ordenesActuales panelMuestra\<rparr>)) =
     [Some 1714641300000, Some 1714570200000, Some 1714564800000, Some 1714564800000]
   \<and> map id_orden (ordenesFiltradas plataformaMuestra
        (panelMuestra\<lparr>ordenesActuales := orden77\<lparr>estado := ''entregado''\<rparr> # ordenesActuales panelMuestra\<rparr>)) =
       [3, 6, 1, 4]
   \<and> milisegundos plataformaMuestra (fecha (orden77\<lparr>estado := ''entregado''\<rparr>)) = None
   \<and> sorted_wrt (\<lambda>a b. \<exists>ta tb. milisegundos plataformaMuestra (fecha a) = Some ta \<and>
             milisegundos plataformaMuestra (fecha b) = Some tb \<and> tb \<le> ta)
        (ordenesFiltradas plataformaMuestra
          (panelMuestra\<lparr>ordenesActuales := orden77\<lparr>estado := ''entregado''\<rparr> # ordenesActuales panelMuestra\<rparr>))
   \<and> map id_orden (filter (\<lambda>x. milisegundos plataformaMuestra (fecha x) = Some 1714564800000)
        (ordenesFiltradas plataformaMuestra
          (panelMuestra\<lparr>ordenesActuales := orden77\<lparr>estado := ''entregado''\<rparr> # ordenesActuales panelMuestra\<rparr>))) =
       [1, 4]"
proof -
  have v: "ordenesFiltradas plataformaMuestra
        (panelMuestra\<lparr>ordenesActuales := orden77\<lparr>estado := ''entregado''\<rparr> # ordenesActuales panelMuestra\<rparr>) =
     [ordenMuestra 3 ''en_camino'' ''2024-05-02T09:15:00Z'',
      ordenMuestra 6 ''confirmado'' ''2024-05-01T13:30:00Z'',
      ordenMuestra 1 ''pendiente'' ''2024-05-01T12:00:00Z'',
      ordenMuestra 4 ''pendiente'' ''2024-05-01T12:00:00Z'']"
    by (simp add: evaluar_vista)
  have a: "map (\<lambda>x. milisegundos plataformaMuestra (fecha x))
     (ordenesFiltradas plataformaMuestra
        (panelMuestra\<lparr>ordenesActuales := orden77\<lparr>estado := ''entregado''\<rparr> # ordenesActuales panelMuestra\<rparr>)) =
     [Some 1714641300000, Some 1714570200000, Some 1714564800000, Some 1714564800000]"
    unfolding v by (simp add: ordenMuestra_def plataformaMuestra_def fechasMuestra_def)
  have "None \<notin> set (map (\<lambda>x. milisegundos plataformaMuestra (fecha x))
     (ordenesFiltradas plataformaMuestra
        (panelMuestra\<lparr>ordenesActuales := orden77\<lparr>estado := ''entregado''\<rparr> # ordenesActuales panelMuestra\<rparr>)))"
    unfolding a by simp
  then have h: "\<forall>x \<in> set (ordenesFiltradas plataformaMuestra
        (panelMuestra\<lparr>ordenesActuales := orden77\<lparr>estado := ''entregado''\<rparr> # ordenesActuales panelMuestra\<rparr>)).
      milisegundos plataformaMuestra (fecha x) \<noteq> None"
    by (rule sin_None)
  have b: "map id_orden (ordenesFiltradas plataformaMuestra
        (panelMuestra\<lparr>ordenesActuales := orden77\<lparr>estado := ''entregado''\<rparr> # ordenesActuales panelMuestra\<rparr>)) =
       [3, 6, 1, 4]"
    unfolding v by (simp add: ordenMuestra_def)
  have c: "map id_orden (filter (\<lambda>x. milisegundos plataformaMuestra (fecha x) = Some 1714564800000)
        (ordenesFiltradas plataformaMuestra
          (panelMuestra\<lparr>ordenesActuales := orden77\<lparr>estado := ''entregado''\<rparr> # ordenesActuales panelMuestra\<rparr>))) =
       [1, 4]"
    unfolding v by (simp add: ordenMuestra_def plataformaMuestra_def fechasMuestra_def)
  have d: "milisegundos plataformaMuestra (fecha (orden77\<lparr>estado := ''entregado''\<rparr>)) = None"
    by (simp add: orden77_def plataformaMuestra_def)
  have s: "sorted_wrt (\<lambda>a b. \<exists>ta tb. milisegundos plataformaMuestra (fecha a) = Some ta \<and>
             milisegundos plataformaMuestra (fecha b) = Some tb \<and> tb \<le> ta)
        (ordenesFiltradas plataformaMuestra
          (panelMuestra\<lparr>ordenesActuales := orden77\<lparr>estado := ''entregado''\<rparr> # ordenesActuales panelMuestra\<rparr>))"
    by (rule vista_ordenada [of plataformaMuestra
      "panelMuestra\<lparr>ordenesActuales := orden77\<lparr>estado := ''entregado''\<rparr> # ordenesActuales panelMuestra\<rparr>",
      THEN conjunct1, THEN mp, OF h])
  show ?thesis
    by (intro conjI a b d s c)
qed

section \<open>Changing the status of an order\<close>











section \<open>The ticket on screen and in print\<close>

lemma verTicket_encontrada:
  assumes "find (\<lambda>x. id_orden x = i) (ordenesActuales st) = Some orden"
  shows "verTicket p i st =
     st\<lparr>ordenSeleccionada := Some orden, ticket_contenido := generarTicket p orden,
        modal_abierto := True\<rparr>"
  using assms by (simp add: verTicket_def Let_def)

text \<open>
  Claim C7. In the source \<^verbatim>\<open>generarTicket\<close> reads its argument and writes only its own
  array of lines, so it is embedded as a function of the order (and of the renderings of
  the platform) with no access to the state of the page: on the same order it gives the
  same text. For the two places that call it this means: the text \<^verbatim>\<open>verTicket\<close> puts in
  the preview is the ticket of the selected order, and the document \<^verbatim>\<open>imprimirTicket\<close>
  writes carries the same text; viewing again changes nothing, printing again writes a
  second document equal to the first; and neither step changes the fetched orders, the
  selected order, the filter or the list shown.
\<close>

theorem ticket_vista_e_impresion:
  assumes "find (\<lambda>x. id_orden x = i) (ordenesActuales st) = Some orden"
  shows "ticket_contenido (verTicket p i st) = generarTicket p orden
   \<and> impresiones (imprimirTicket p (verTicket p i st)) =
       impresiones st @ [documentoImpresion (id_orden orden) (ticket_contenido (verTicket p i st))]
   \<and> verTicket p i (verTicket p i st) = verTicket p i st
   \<and> imprimirTicket p (imprimirTicket p (verTicket p i st)) =
       (imprimirTicket p (verTicket p i st))
         \<lparr>impresiones := impresiones st @
            [documentoImpresion (id_orden orden) (generarTicket p orden),
             documentoImpresion (id_orden orden) (generarTicket p orden)]\<rparr>
   \<and> ordenesActuales (imprimirTicket p (verTicket p i st)) = ordenesActuales st
   \<and> ordenSeleccionada (imprimirTicket p (verTicket p i st)) = Some orden
   \<and> filtroActual (imprimirTicket p (verTicket p i st)) = filtroActual st
   \<and> contenedor_html (imprimirTicket p (verTicket p i st)) = contenedor_html st"
proof -
  have v: "verTicket p i st =
     st\<lparr>ordenSeleccionada := Some orden, ticket_contenido := generarTicket p orden,
        modal_abierto := True\<rparr>"
    using assms by (rule verTicket_encontrada)
  have w: "verTicket p i (verTicket p i st) = verTicket p i st"
    using assms by (simp add: verTicket_def Let_def)
  have m: "mostrarExito t (mostrarExito t c) = mostrarExito t c" for t c
    by (cases c) (simp_all add: mostrarExito_def)
  show ?thesis
    unfolding w unfolding v by (simp add: imprimirTicket_def Let_def m)
qed

theorem ticket_vista_e_impresion_witness:
  "find (\<lambda>x. id_orden x = 3) (ordenesActuales panelMuestra) =
     Some (ordenMuestra 3 ''en_camino'' ''2024-05-02T09:15:00Z'')
   \<and> ticket_contenido (verTicket plataformaMuestra 3 panelMuestra) =
       generarTicket plataformaMuestra (ordenMuestra 3 ''en_camino'' ''2024-05-02T09:15:00Z'')
   \<and> impresiones (imprimirTicket plataformaMuestra (verTicket plataformaMuestra 3 panelMuestra)) =
       [documentoImpresion 3
          (generarTicket plataformaMuestra (ordenMuestra 3 ''en_camino'' ''2024-05-02T09:15:00Z''))]
   \<and> ordenesActuales (imprimirTicket plataformaMuestra (verTicket plataformaMuestra 3 panelMuestra)) =
       ordenesActuales panelMuestra"
proof -
  have a: "find (\<lambda>x. id_orden x = 3) (ordenesActuales panelMuestra) =
     Some (ordenMuestra 3 ''en_camino'' ''2024-05-02T09:15:00Z'')"
    by (simp add: panelMuestra_def ordenMuestra_def)
  have b: "impresiones panelMuestra = []"
    by (simp add: panelMuestra_def)
  have c: "id_orden (ordenMuestra 3 ''en_camino'' ''2024-05-02T09:15:00Z'') = 3"
    by (simp add: ordenMuestra_def)
  show ?thesis
    using ticket_vista_e_impresion [OF a, of plataformaMuestra] a b c by simp
qed

end
